theory Spec2Isabelle
  imports Main "HOL-Library.Char_ord" "HOL-Library.List_Lexorder"
begin

section \<open>Strings, characters and the values of the Python program\<close>

text \<open>
  The program under study is \<^verbatim>\<open>log_parser.py\<close>: \<^verbatim>\<open>parse_log_file\<close> turns the lines of
  a log into a list of exchange records, and a family of renderers turns that list into
  text. A Python \<^verbatim>\<open>str\<close> is a sequence of code points; here a \<^typ>\<open>char\<close> is a code
  point below 256, so the model covers texts over Latin-1. In that range \<^verbatim>\<open>\d\<close> is
  exactly \<^verbatim>\<open>0-9\<close> and \<^verbatim>\<open>str.strip()\<close> removes exactly the twelve characters of
  \<open>is_space\<close>.
\<close>

definition is_digit :: "char \<Rightarrow> bool" where
  "is_digit c = (c \<in> set ''0123456789'')"

definition is_space :: "char \<Rightarrow> bool" where
  "is_space c = (c \<in> set [CHR 0x09, CHR 0x0A, CHR 0x0B, CHR 0x0C, CHR 0x0D,
     CHR 0x1C, CHR 0x1D, CHR 0x1E, CHR 0x1F, CHR 0x20, CHR 0x85, CHR 0xA0])"

definition newline :: char where
  "newline = CHR 0x0A"

definition strip :: "string \<Rightarrow> string" where
  "strip s = rev (dropWhile is_space (rev (dropWhile is_space s)))"

text \<open>
  The values a decoded JSON text can hold. A float keeps the text of its literal: its
  numeric value plays no part in the parser. A \<^verbatim>\<open>dict\<close> is an association list with
  distinct keys in insertion order.
\<close>

datatype pyval =
    PNone
  | PBool bool
  | PInt int
  | PFloat string
  | PStr string
  | PList "pyval list"
  | PDict "(string \<times> pyval) list"

text \<open>
  The exceptions the program can meet. \<open>OutsideModel\<close> is no Python exception: it marks
  the few library results this model does not compute (a code point above 255 from a
  \<^verbatim>\<open>\u\<close> escape, \<^verbatim>\<open>str()\<close> of a float or of a container).
\<close>

datatype error =
    JSONDecodeError
  | TypeError
  | AttributeError
  | ValueError
  | KeyError
  | RecursionError
  | OutsideModel

type_synonym decoder = "string \<Rightarrow> error + pyval"

text \<open>
  An exchange record is the \<^verbatim>\<open>dict\<close> that \<^verbatim>\<open>parse_log_file\<close> appends. The key
  \<^verbatim>\<open>'timestamp'\<close> exists only in records of the fourth pattern: \<open>None\<close> is the absent
  key. The timestamp is a \<^verbatim>\<open>datetime\<close> on today's date, kept as the microseconds since
  midnight. \<^verbatim>\<open>'source'\<close> and \<^verbatim>\<open>'type'\<close> can come out of the payload and so are any
  value; the other fields are always strings.
\<close>

record exchange =
  timestamp :: "int option"
  source :: pyval
  destination :: string
  protocol :: string
  msg_type :: pyval
  info :: string

section \<open>The four line patterns\<close>

text \<open>
  Each \<^verbatim>\<open>re.search\<close> of the source is anchored with \<^verbatim>\<open>^\<close>, so it matches at the start
  of the line only. \<open>lit\<close> is a literal piece of a pattern and \<open>many1\<close> a repetition
  \<^verbatim>\<open>[...]+\<close>. In all four patterns the character that follows such a repetition is a
  literal outside the class, so the only way to match is to take the longest run, which
  is what \<open>takeWhile\<close> does.
\<close>

definition lit :: "string \<Rightarrow> string \<Rightarrow> string option" where
  "lit p s = (if take (length p) s = p then Some (drop (length p) s) else None)"

definition many1 :: "(char \<Rightarrow> bool) \<Rightarrow> string \<Rightarrow> (string \<times> string) option" where
  "many1 P s = (if takeWhile P s = [] then None else Some (takeWhile P s, dropWhile P s))"

text \<open>
  \<^verbatim>\<open>$\<close> matches at the end of the text and also just before a newline that ends it;
  \<^verbatim>\<open>.\<close> matches anything but a newline.
\<close>

definition chomp :: "string \<Rightarrow> string" where
  "chomp s = (if s \<noteq> [] \<and> last s = newline then butlast s else s)"

text \<open>The tail \<^verbatim>\<open>(.*)$\<close> of patterns one to three: the captured group, if it matches.\<close>

definition rest_of_line :: "string \<Rightarrow> string option" where
  "rest_of_line s = (if newline \<in> set (chomp s) then None else Some (chomp s))"

text \<open>The tail \<^verbatim>\<open>(.*)\]$\<close> of pattern four: the greedy group ends at the last bracket.\<close>

definition rest_in_bracket :: "string \<Rightarrow> string option" where
  "rest_in_bracket s =
     (if newline \<in> set (chomp s) \<or> chomp s = [] \<or> last (chomp s) \<noteq> CHR '']'' then None
      else Some (butlast (chomp s)))"

definition is_ip_char :: "char \<Rightarrow> bool" where
  "is_ip_char c = (is_digit c \<or> c = CHR ''.'')"

definition is_time_char :: "char \<Rightarrow> bool" where
  "is_time_char c = (is_digit c \<or> c = CHR ''.'' \<or> c = CHR '':'')"

text \<open>\<^verbatim>\<open>(node\d+)\<close> at the start of a text: the captured name and what follows it.\<close>

definition node_name :: "string \<Rightarrow> (string \<times> string) option" where
  "node_name s =
     (case lit ''node'' s of None \<Rightarrow> None
      | Some r \<Rightarrow> (case many1 is_digit r of None \<Rightarrow> None
          | Some (ds, r') \<Rightarrow> Some (''node'' @ ds, r')))"

text \<open>\<^verbatim>\<open>^(node\d+): Sending message to (node\d+): (.*)$\<close>\<close>

definition match_sending :: "string \<Rightarrow> (string \<times> string \<times> string) option" where
  "match_sending s =
     (case node_name s of None \<Rightarrow> None
      | Some (g1, r1) \<Rightarrow> (case lit '': Sending message to '' r1 of None \<Rightarrow> None
      | Some r2 \<Rightarrow> (case node_name r2 of None \<Rightarrow> None
      | Some (g2, r3) \<Rightarrow> (case lit '': '' r3 of None \<Rightarrow> None
      | Some r4 \<Rightarrow> (case rest_of_line r4 of None \<Rightarrow> None
      | Some g3 \<Rightarrow> Some (g1, g2, g3))))))"

text \<open>\<^verbatim>\<open>^(node\d+): Received message from ([\d\.]+):\d+: (.*)$\<close>\<close>

definition match_received :: "string \<Rightarrow> (string \<times> string \<times> string) option" where
  "match_received s =
     (case node_name s of None \<Rightarrow> None
      | Some (g1, r1) \<Rightarrow> (case lit '': Received message from '' r1 of None \<Rightarrow> None
      | Some r2 \<Rightarrow> (case many1 is_ip_char r2 of None \<Rightarrow> None
      | Some (g2, r3) \<Rightarrow> (case lit '':'' r3 of None \<Rightarrow> None
      | Some r4 \<Rightarrow> (case many1 is_digit r4 of None \<Rightarrow> None
      | Some (port, r5) \<Rightarrow> (case lit '': '' r5 of None \<Rightarrow> None
      | Some r6 \<Rightarrow> (case rest_of_line r6 of None \<Rightarrow> None
      | Some g3 \<Rightarrow> Some (g1, g2, g3))))))))"

text \<open>\<^verbatim>\<open>^UDPTransport: Sending message to ([\d\.]+):(\d+): (.*)$\<close>\<close>

definition match_transport :: "string \<Rightarrow> (string \<times> string \<times> string) option" where
  "match_transport s =
     (case lit ''UDPTransport: Sending message to '' s of None \<Rightarrow> None
      | Some r1 \<Rightarrow> (case many1 is_ip_char r1 of None \<Rightarrow> None
      | Some (g1, r2) \<Rightarrow> (case lit '':'' r2 of None \<Rightarrow> None
      | Some r3 \<Rightarrow> (case many1 is_digit r3 of None \<Rightarrow> None
      | Some (g2, r4) \<Rightarrow> (case lit '': '' r4 of None \<Rightarrow> None
      | Some r5 \<Rightarrow> (case rest_of_line r5 of None \<Rightarrow> None
      | Some g3 \<Rightarrow> Some (g1, g2, g3)))))))"

text \<open>
  \<^verbatim>\<open>^\[UDP_LOG\] \[(IN|OUT)\] \[([\d\.:]+)\] \[([\d]+)\] \[([\d\.]+):([\d]+)\] \[(.*)\]$\<close>
\<close>

definition direction_tag :: "string \<Rightarrow> (string \<times> string) option" where
  "direction_tag s =
     (case lit ''IN'' s of Some r \<Rightarrow> Some (''IN'', r)
      | None \<Rightarrow> (case lit ''OUT'' s of Some r \<Rightarrow> Some (''OUT'', r) | None \<Rightarrow> None))"

definition match_udp_log ::
  "string \<Rightarrow> (string \<times> string \<times> string \<times> string \<times> string \<times> string) option" where
  "match_udp_log s =
     (case lit ''[UDP_LOG] ['' s of None \<Rightarrow> None
      | Some r1 \<Rightarrow> (case direction_tag r1 of None \<Rightarrow> None
      | Some (g1, r2) \<Rightarrow> (case lit ''] ['' r2 of None \<Rightarrow> None
      | Some r3 \<Rightarrow> (case many1 is_time_char r3 of None \<Rightarrow> None
      | Some (g2, r4) \<Rightarrow> (case lit ''] ['' r4 of None \<Rightarrow> None
      | Some r5 \<Rightarrow> (case many1 is_digit r5 of None \<Rightarrow> None
      | Some (g3, r6) \<Rightarrow> (case lit ''] ['' r6 of None \<Rightarrow> None
      | Some r7 \<Rightarrow> (case many1 is_ip_char r7 of None \<Rightarrow> None
      | Some (g4, r8) \<Rightarrow> (case lit '':'' r8 of None \<Rightarrow> None
      | Some r9 \<Rightarrow> (case many1 is_digit r9 of None \<Rightarrow> None
      | Some (g5, r10) \<Rightarrow> (case lit ''] ['' r10 of None \<Rightarrow> None
      | Some r11 \<Rightarrow> (case rest_in_bracket r11 of None \<Rightarrow> None
      | Some g6 \<Rightarrow> Some (g1, g2, g3, g4, g5, g6)))))))))))))"

section \<open>Payload classification\<close>

text \<open>
  \<^verbatim>\<open>json.loads\<close> is library code: \<open>parse_line\<close> takes the decoder as a parameter
  \<open>loads\<close>, any function from a text to a value or an exception. What the program does
  with a decoded value is modelled here: the methods it calls exist on some values
  and raise on the others.
\<close>

text \<open>\<^verbatim>\<open>v.get(k, dflt)\<close>: only a \<^verbatim>\<open>dict\<close> has the method.\<close>

definition py_get :: "pyval \<Rightarrow> string \<Rightarrow> pyval \<Rightarrow> error + pyval" where
  "py_get v k dflt =
     (case v of
        PDict kvs \<Rightarrow> (case map_of kvs k of Some x \<Rightarrow> Inr x | None \<Rightarrow> Inr dflt)
      | _ \<Rightarrow> Inl AttributeError)"

text \<open>\<^verbatim>\<open>json.loads(v)\<close> on a value that came out of a payload: anything but a \<^verbatim>\<open>str\<close> is a TypeError.\<close>

definition loads_value :: "decoder \<Rightarrow> pyval \<Rightarrow> error + pyval" where
  "loads_value loads v = (case v of PStr s \<Rightarrow> loads s | _ \<Rightarrow> Inl TypeError)"

text \<open>\<^verbatim>\<open>sub in s\<close> on two strings.\<close>

fun is_substring :: "string \<Rightarrow> string \<Rightarrow> bool" where
  "is_substring sub [] = (sub = [])"
| "is_substring sub (c # cs) = (take (length sub) (c # cs) = sub \<or> is_substring sub cs)"

text \<open>\<^verbatim>\<open>k in v\<close> for a string \<open>k\<close>: key of a dict, substring of a string, element of a list.\<close>

definition py_in :: "string \<Rightarrow> pyval \<Rightarrow> error + bool" where
  "py_in k v =
     (case v of
        PDict kvs \<Rightarrow> Inr (k \<in> set (map fst kvs))
      | PStr s \<Rightarrow> Inr (is_substring k s)
      | PList xs \<Rightarrow> Inr (PStr k \<in> set xs)
      | _ \<Rightarrow> Inl TypeError)"

text \<open>\<^verbatim>\<open>v[k]\<close> for a string \<open>k\<close>.\<close>

definition py_getitem :: "pyval \<Rightarrow> string \<Rightarrow> error + pyval" where
  "py_getitem v k =
     (case v of
        PDict kvs \<Rightarrow> (case map_of kvs k of Some x \<Rightarrow> Inr x | None \<Rightarrow> Inl KeyError)
      | _ \<Rightarrow> Inl TypeError)"

text \<open>\<^verbatim>\<open>try: body except (e1, ...): handler\<close>, where the handler yields a value.\<close>

definition try_except :: "error + 'a \<Rightarrow> error list \<Rightarrow> 'a \<Rightarrow> error + 'a" where
  "try_except body caught handler =
     (case body of
        Inl e \<Rightarrow> (if e \<in> set caught then Inr handler else Inl e)
      | Inr x \<Rightarrow> Inr x)"

text \<open>
  Lines 18 to 22, the first pattern:
  \<^verbatim>\<open>message_json = json.loads(message_str); msg_type = message_json.get('type', 'json')\<close>,
  with \<^verbatim>\<open>'text'\<close> on a JSONDecodeError.
\<close>

definition direct_type :: "decoder \<Rightarrow> string \<Rightarrow> error + pyval" where
  "direct_type loads message_str =
     try_except
       (case loads message_str of Inl e \<Rightarrow> Inl e
        | Inr message_json \<Rightarrow> py_get message_json ''type'' (PStr ''json''))
       [JSONDecodeError] (PStr ''text'')"

text \<open>
  The body of the \<^verbatim>\<open>try\<close> of the second and third pattern (lines 40 to 44 and 64 to
  67): the pair \<open>(msg_type, source)\<close> it assigns when nothing is raised.
\<close>

definition envelope_body :: "decoder \<Rightarrow> string \<Rightarrow> error + (pyval \<times> pyval)" where
  "envelope_body loads message_str =
     (case loads message_str of Inl e \<Rightarrow> Inl e
      | Inr message_json \<Rightarrow>
     (case py_get message_json ''sender'' (PStr ''unknown'') of Inl e \<Rightarrow> Inl e
      | Inr sender \<Rightarrow>
     (case py_get message_json ''message'' (PStr ''{}'') of Inl e \<Rightarrow> Inl e
      | Inr message \<Rightarrow>
     (case loads_value loads message of Inl e \<Rightarrow> Inl e
      | Inr message_content \<Rightarrow>
     (case py_get message_content ''type'' (PStr ''json'') of Inl e \<Rightarrow> Inl e
      | Inr t \<Rightarrow> Inr (t, sender))))))"

text \<open>
  \<^verbatim>\<open>except (json.JSONDecodeError, TypeError)\<close>: the type becomes \<^verbatim>\<open>'text'\<close> and the
  source the fallback of the pattern (the captured address, or \<^verbatim>\<open>'unknown'\<close>).
\<close>

definition envelope_type :: "decoder \<Rightarrow> string \<Rightarrow> string \<Rightarrow> error + (pyval \<times> pyval)" where
  "envelope_type loads message_str fallback =
     try_except (envelope_body loads message_str) [JSONDecodeError, TypeError]
       (PStr ''text'', PStr fallback)"

text \<open>
  Lines 105 to 111, the fourth pattern: the default \<^verbatim>\<open>'UDP_DATA'\<close>, replaced when the
  preview decodes and \<^verbatim>\<open>'type' in message_json\<close>; a JSONDecodeError keeps the default.
\<close>

definition optional_type :: "decoder \<Rightarrow> string \<Rightarrow> error + pyval" where
  "optional_type loads message_preview =
     try_except
       (case loads message_preview of Inl e \<Rightarrow> Inl e
        | Inr message_json \<Rightarrow>
       (case py_in ''type'' message_json of Inl e \<Rightarrow> Inl e
        | Inr present \<Rightarrow>
            if present then py_getitem message_json ''type'' else Inr (PStr ''UDP_DATA'')))
       [JSONDecodeError] (PStr ''UDP_DATA'')"

section \<open>The time of day\<close>

text \<open>
  \<^verbatim>\<open>datetime.strptime(f'{today} {timestamp_str}', '%Y-%m-%d %H:%M:%S.%f')\<close>. The date
  part is today's and always parses. \<^verbatim>\<open>%H\<close>, \<^verbatim>\<open>%M\<close> and \<^verbatim>\<open>%S\<close> take one or two
  digits within their range, \<^verbatim>\<open>%f\<close> takes one to six digits, padded on the right to
  microseconds, and the whole text must be used up. Anything else is a ValueError (a
  second of 60 or 61 passes the format and is refused by the \<^verbatim>\<open>datetime\<close> constructor).
\<close>

definition digit_val :: "char \<Rightarrow> int" where
  "digit_val c = of_char c - 48"

definition int_of_digits :: "string \<Rightarrow> int" where
  "int_of_digits ds = foldl (\<lambda>a c. 10 * a + digit_val c) 0 ds"

definition clock_field :: "int \<Rightarrow> string \<Rightarrow> (int \<times> string) option" where
  "clock_field bound s =
     (let ds = takeWhile is_digit s in
      if (length ds = 1 \<or> length ds = 2) \<and> int_of_digits ds \<le> bound
      then Some (int_of_digits ds, dropWhile is_digit s) else None)"

definition strptime :: "string \<Rightarrow> error + int" where
  "strptime timestamp_str =
     (case clock_field 23 timestamp_str of None \<Rightarrow> Inl ValueError
      | Some (h, r1) \<Rightarrow> (case lit '':'' r1 of None \<Rightarrow> Inl ValueError
      | Some r2 \<Rightarrow> (case clock_field 59 r2 of None \<Rightarrow> Inl ValueError
      | Some (m, r3) \<Rightarrow> (case lit '':'' r3 of None \<Rightarrow> Inl ValueError
      | Some r4 \<Rightarrow> (case clock_field 59 r4 of None \<Rightarrow> Inl ValueError
      | Some (sec, r5) \<Rightarrow> (case lit ''.'' r5 of None \<Rightarrow> Inl ValueError
      | Some r6 \<Rightarrow>
          (let fs = takeWhile is_digit r6 in
           if fs = [] \<or> 6 < length fs \<or> dropWhile is_digit r6 \<noteq> [] then Inl ValueError
           else Inr (((h * 60 + m) * 60 + sec) * 1000000
                     + int_of_digits (fs @ replicate (6 - length fs) (CHR ''0''))))))))))"

section \<open>The normalisation pipeline\<close>

text \<open>
  One turn of the loop of \<^verbatim>\<open>parse_log_file\<close> (lines 10 to 121): \<open>Inr (Some r)\<close> when
  the line appends the record \<open>r\<close>, \<open>Inr None\<close> when no pattern matches, \<open>Inl e\<close> when
  an exception leaves the function.
\<close>

definition parse_line :: "decoder \<Rightarrow> string \<Rightarrow> error + exchange option" where
  "parse_line loads line =
     (let log = strip line in
      case match_sending log of
        Some (g1, g2, message_str) \<Rightarrow>
          (case direct_type loads message_str of Inl e \<Rightarrow> Inl e
           | Inr t \<Rightarrow> Inr (Some \<lparr>timestamp = None, source = PStr g1, destination = g2,
               protocol = ''P2P'', msg_type = t, info = message_str\<rparr>))
      | None \<Rightarrow>
     (case match_received log of
        Some (g1, source_ip, message_str) \<Rightarrow>
          (case envelope_type loads message_str source_ip of Inl e \<Rightarrow> Inl e
           | Inr (t, src) \<Rightarrow> Inr (Some \<lparr>timestamp = None, source = src, destination = g1,
               protocol = ''P2P'', msg_type = t, info = message_str\<rparr>))
      | None \<Rightarrow>
     (case match_transport log of
        Some (g1, g2, message_str) \<Rightarrow>
          (case envelope_type loads message_str ''unknown'' of Inl e \<Rightarrow> Inl e
           | Inr (t, src) \<Rightarrow> Inr (Some \<lparr>timestamp = None, source = src,
               destination = g1 @ '':'' @ g2,
               protocol = ''UDP'', msg_type = t, info = message_str\<rparr>))
      | None \<Rightarrow>
     (case match_udp_log log of
        Some (direction, timestamp_str, local_port, remote_address, remote_port,
              message_preview) \<Rightarrow>
          (case strptime timestamp_str of Inl e \<Rightarrow> Inl e
           | Inr ts \<Rightarrow>
          (case optional_type loads message_preview of Inl e \<Rightarrow> Inl e
           | Inr t \<Rightarrow> Inr (Some \<lparr>timestamp = Some ts,
               source = PStr (if direction = ''IN'' then remote_address @ '':'' @ remote_port
                              else ''localhost:'' @ local_port),
               destination = (if direction = ''IN'' then ''localhost:'' @ local_port
                              else remote_address @ '':'' @ remote_port),
               protocol = ''UDP'', msg_type = t, info = message_preview\<rparr>)))
      | None \<Rightarrow> Inr None))))"

text \<open>The loop over \<^verbatim>\<open>logs\<close>, with \<^verbatim>\<open>parsed_logs\<close> as the accumulator.\<close>

fun parse_loop :: "decoder \<Rightarrow> string list \<Rightarrow> exchange list \<Rightarrow> error + exchange list" where
  "parse_loop loads [] parsed_logs = Inr parsed_logs"
| "parse_loop loads (line # logs) parsed_logs =
     (case parse_line loads line of
        Inl e \<Rightarrow> Inl e
      | Inr None \<Rightarrow> parse_loop loads logs parsed_logs
      | Inr (Some r) \<Rightarrow> parse_loop loads logs (parsed_logs @ [r]))"

text \<open>
  \<^verbatim>\<open>parse_log_file\<close>, from the list \<^verbatim>\<open>logs\<close> of the lines of the file on (reading
  the file is the caller's side of the interface).
\<close>

definition parse_log_file :: "decoder \<Rightarrow> string list \<Rightarrow> error + exchange list" where
  "parse_log_file loads logs = parse_loop loads logs []"

section \<open>A JSON decoder\<close>

text \<open>
  A model of \<^verbatim>\<open>json.loads\<close> for the concrete runs of the parser, after the decoder
  of the Python library: \<^verbatim>\<open>scanstring\<close>, \<^verbatim>\<open>NUMBER_RE\<close>, \<^verbatim>\<open>scan_once\<close>,
  \<^verbatim>\<open>JSONArray\<close>, \<^verbatim>\<open>JSONObject\<close> and \<^verbatim>\<open>JSONDecoder.decode\<close>. Every syntax error is
  a JSONDecodeError. The recursion runs on fuel, which \<open>json_loads\<close> gives in excess of
  what a text of that length can use; the limits of the interpreter (the depth of
  recursion, the number of digits of an integer) are not modelled. The theorems about
  every line hold for any decoder; this one serves the concrete examples.
\<close>

definition is_json_ws :: "char \<Rightarrow> bool" where
  "is_json_ws c = (c \<in> set [CHR 0x20, CHR 0x09, CHR 0x0A, CHR 0x0D])"

definition skip_ws :: "string \<Rightarrow> string" where
  "skip_ws s = dropWhile is_json_ws s"

definition backslash :: "char \<Rightarrow> char option" where
  "backslash e =
     (if e = CHR 0x22 then Some (CHR 0x22)
      else if e = CHR 0x5C then Some (CHR 0x5C)
      else if e = CHR ''/'' then Some (CHR ''/'')
      else if e = CHR ''b'' then Some (CHR 0x08)
      else if e = CHR ''f'' then Some (CHR 0x0C)
      else if e = CHR ''n'' then Some (CHR 0x0A)
      else if e = CHR ''r'' then Some (CHR 0x0D)
      else if e = CHR ''t'' then Some (CHR 0x09)
      else None)"

definition hex_val :: "char \<Rightarrow> nat option" where
  "hex_val c =
     (if is_digit c then Some (of_char c - 48)
      else if c \<in> set ''abcdef'' then Some (of_char c - 87)
      else if c \<in> set ''ABCDEF'' then Some (of_char c - 55)
      else None)"

text \<open>The four hexadecimal digits of a \<^verbatim>\<open>\uXXXX\<close> escape.\<close>

definition hex4 :: "string \<Rightarrow> nat option" where
  "hex4 s =
     (case map hex_val (take 4 s) of
        [Some a, Some b, Some c, Some d] \<Rightarrow> Some (((a * 16 + b) * 16 + c) * 16 + d)
      | _ \<Rightarrow> None)"

text \<open>
  \<^verbatim>\<open>scanstring\<close> in strict mode, from behind the opening quote: the decoded text and
  what follows the closing quote.
\<close>

fun scanstring :: "string \<Rightarrow> string \<Rightarrow> error + (string \<times> string)" where
  "scanstring acc [] = Inl JSONDecodeError"
| "scanstring acc (c # cs) =
     (if c = CHR 0x22 then Inr (acc, cs)
      else if c = CHR 0x5C then
        (case cs of
           [] \<Rightarrow> Inl JSONDecodeError
         | e # es \<Rightarrow>
             if e = CHR ''u'' then
               (case hex4 es of
                  None \<Rightarrow> Inl JSONDecodeError
                | Some n \<Rightarrow>
                    if n < 256 then scanstring (acc @ [char_of n]) (drop 4 es)
                    else Inl OutsideModel)
             else
               (case backslash e of
                  None \<Rightarrow> Inl JSONDecodeError
                | Some d \<Rightarrow> scanstring (acc @ [d]) es))
      else if (of_char c :: nat) < 32 then Inl JSONDecodeError
      else scanstring (acc @ [c]) cs)"

text \<open>\<^verbatim>\<open>NUMBER_RE = (-?(?:0|[1-9]\d*))(\.\d+)?([eE][-+]?\d+)?\<close>\<close>

definition scan_int_part :: "string \<Rightarrow> (string \<times> string) option" where
  "scan_int_part s =
     (case s of
        [] \<Rightarrow> None
      | c # cs \<Rightarrow>
          if c = CHR ''0'' then Some ([c], cs)
          else if is_digit c then Some (c # takeWhile is_digit cs, dropWhile is_digit cs)
          else None)"

definition scan_frac :: "string \<Rightarrow> string \<times> string" where
  "scan_frac s =
     (case s of
        [] \<Rightarrow> ([], s)
      | c # cs \<Rightarrow>
          if c = CHR ''.'' \<and> takeWhile is_digit cs \<noteq> []
          then (c # takeWhile is_digit cs, dropWhile is_digit cs) else ([], s))"

definition scan_sign :: "string \<Rightarrow> string \<times> string" where
  "scan_sign s =
     (case s of
        [] \<Rightarrow> ([], s)
      | c # cs \<Rightarrow> if c = CHR ''-'' \<or> c = CHR ''+'' then ([c], cs) else ([], s))"

definition scan_exp :: "string \<Rightarrow> string \<times> string" where
  "scan_exp s =
     (case s of
        [] \<Rightarrow> ([], s)
      | c # cs \<Rightarrow>
          if (c = CHR ''e'' \<or> c = CHR ''E'')
             \<and> takeWhile is_digit (snd (scan_sign cs)) \<noteq> []
          then (c # fst (scan_sign cs) @ takeWhile is_digit (snd (scan_sign cs)),
                dropWhile is_digit (snd (scan_sign cs)))
          else ([], s))"

definition match_number :: "string \<Rightarrow> (pyval \<times> string) option" where
  "match_number s =
     (let neg = (s \<noteq> [] \<and> hd s = CHR ''-'');
          r0 = (if neg then tl s else s)
      in case scan_int_part r0 of
           None \<Rightarrow> None
         | Some (ip, r1) \<Rightarrow>
             (let fr = fst (scan_frac r1); r2 = snd (scan_frac r1);
                  ex = fst (scan_exp r2); r3 = snd (scan_exp r2)
              in if fr = [] \<and> ex = []
                 then Some (PInt (if neg then - int_of_digits ip else int_of_digits ip), r3)
                 else Some (PFloat ((if neg then ''-'' else []) @ ip @ fr @ ex), r3)))"

text \<open>\<^verbatim>\<open>dict(pairs)\<close>: a later pair with the same key replaces the value in place.\<close>

fun dict_set :: "(string \<times> pyval) list \<Rightarrow> string \<Rightarrow> pyval \<Rightarrow> (string \<times> pyval) list" where
  "dict_set [] k v = [(k, v)]"
| "dict_set ((k', v') # kvs) k v =
     (if k' = k then (k, v) # kvs else (k', v') # dict_set kvs k v)"

text \<open>
  \<open>scan_once\<close> reads one value at the start of a text. \<open>json_array\<close> continues an array
  at the start of an element, \<open>json_object\<close> continues an object behind the opening
  quote of a key; both carry what they have read so far.
\<close>

fun scan_once :: "nat \<Rightarrow> string \<Rightarrow> error + (pyval \<times> string)"
  and json_array :: "nat \<Rightarrow> pyval list \<Rightarrow> string \<Rightarrow> error + (pyval \<times> string)"
  and json_object :: "nat \<Rightarrow> (string \<times> pyval) list \<Rightarrow> string \<Rightarrow> error + (pyval \<times> string)"
where
  "scan_once 0 s = Inl RecursionError"
| "scan_once (Suc n) s =
     (if s = [] then Inl JSONDecodeError
      else if hd s = CHR 0x22 then
        (case scanstring [] (tl s) of Inl e \<Rightarrow> Inl e | Inr (x, r) \<Rightarrow> Inr (PStr x, r))
      else if hd s = CHR ''{'' then
        (let r = skip_ws (tl s) in
         if r \<noteq> [] \<and> hd r = CHR ''}'' then Inr (PDict [], tl r)
         else if r \<noteq> [] \<and> hd r = CHR 0x22 then json_object n [] (tl r)
         else Inl JSONDecodeError)
      else if hd s = CHR ''['' then
        (let r = skip_ws (tl s) in
         if r \<noteq> [] \<and> hd r = CHR '']'' then Inr (PList [], tl r)
         else json_array n [] r)
      else if take 4 s = ''null'' then Inr (PNone, drop 4 s)
      else if take 4 s = ''true'' then Inr (PBool True, drop 4 s)
      else if take 5 s = ''false'' then Inr (PBool False, drop 5 s)
      else
        (case match_number s of
           Some (v, r) \<Rightarrow> Inr (v, r)
         | None \<Rightarrow>
             if take 3 s = ''NaN'' then Inr (PFloat ''NaN'', drop 3 s)
             else if take 8 s = ''Infinity'' then Inr (PFloat ''Infinity'', drop 8 s)
             else if take 9 s = ''-Infinity'' then Inr (PFloat ''-Infinity'', drop 9 s)
             else Inl JSONDecodeError))"
| "json_array 0 acc s = Inl RecursionError"
| "json_array (Suc n) acc s =
     (case scan_once n s of
        Inl e \<Rightarrow> Inl e
      | Inr (v, r) \<Rightarrow>
          (let r1 = skip_ws r in
           if r1 = [] then Inl JSONDecodeError
           else if hd r1 = CHR '']'' then Inr (PList (acc @ [v]), tl r1)
           else if hd r1 = CHR '','' then json_array n (acc @ [v]) (skip_ws (tl r1))
           else Inl JSONDecodeError))"
| "json_object 0 acc s = Inl RecursionError"
| "json_object (Suc n) acc s =
     (case scanstring [] s of
        Inl e \<Rightarrow> Inl e
      | Inr (key, r1) \<Rightarrow>
          (let r2 = skip_ws r1 in
           if r2 = [] \<or> hd r2 \<noteq> CHR '':'' then Inl JSONDecodeError
           else
             (case scan_once n (skip_ws (tl r2)) of
                Inl e \<Rightarrow> Inl e
              | Inr (v, r3) \<Rightarrow>
                  (let r4 = skip_ws r3 in
                   if r4 = [] then Inl JSONDecodeError
                   else if hd r4 = CHR ''}'' then Inr (PDict (dict_set acc key v), tl r4)
                   else if hd r4 = CHR '','' then
                     (let r5 = skip_ws (tl r4) in
                      if r5 \<noteq> [] \<and> hd r5 = CHR 0x22
                      then json_object n (dict_set acc key v) (tl r5)
                      else Inl JSONDecodeError)
                   else Inl JSONDecodeError))))"

text \<open>\<^verbatim>\<open>json.loads\<close>: one value, with white space before and after and nothing else.\<close>

definition json_loads :: decoder where
  "json_loads s =
     (case scan_once (2 * length s + 2) (skip_ws s) of
        Inl e \<Rightarrow> Inl e
      | Inr (v, r) \<Rightarrow> if skip_ws r = [] then Inr v else Inl JSONDecodeError)"

section \<open>Formatting\<close>

definition ljust :: "nat \<Rightarrow> string \<Rightarrow> string" where
  "ljust n s = s @ replicate (n - length s) (CHR 0x20)"

definition rjust_zero :: "nat \<Rightarrow> string \<Rightarrow> string" where
  "rjust_zero n s = replicate (n - length s) (CHR ''0'') @ s"

text \<open>The decimal digits of an integer that is not negative.\<close>

function show_digits :: "int \<Rightarrow> string" where
  "show_digits n =
     (if n < 10 then [char_of (48 + n)]
      else show_digits (n div 10) @ [char_of (48 + n mod 10)])"
  by pat_completeness auto
termination
  by (relation "measure nat") auto

declare show_digits.simps [simp del]

definition show_int :: "int \<Rightarrow> string" where
  "show_int i = (if i < 0 then ''-'' @ show_digits (- i) else show_digits i)"

text \<open>
  \<^verbatim>\<open>str(v)\<close>, which is what an f-string field without a format does. The text of a
  float and of a container is not modelled.
\<close>

definition py_str :: "pyval \<Rightarrow> error + string" where
  "py_str v =
     (case v of
        PStr s \<Rightarrow> Inr s
      | PInt i \<Rightarrow> Inr (show_int i)
      | PBool b \<Rightarrow> Inr (if b then ''True'' else ''False'')
      | PNone \<Rightarrow> Inr ''None''
      | _ \<Rightarrow> Inl OutsideModel)"

text \<open>
  \<^verbatim>\<open>format(v, '<n')\<close>: a string and an integer are padded on the right, a \<^verbatim>\<open>bool\<close>
  is formatted as the integer it is, \<^verbatim>\<open>None\<close>, a list and a dict refuse a format
  (TypeError). The text of a float is not modelled.
\<close>

definition py_format_ljust :: "nat \<Rightarrow> pyval \<Rightarrow> error + string" where
  "py_format_ljust n v =
     (case v of
        PStr s \<Rightarrow> Inr (ljust n s)
      | PInt i \<Rightarrow> Inr (ljust n (show_int i))
      | PBool b \<Rightarrow> Inr (ljust n (if b then ''1'' else ''0''))
      | PFloat x \<Rightarrow> Inl OutsideModel
      | _ \<Rightarrow> Inl TypeError)"

text \<open>
  \<^verbatim>\<open>(a - b).total_seconds()\<close> under \<^verbatim>\<open>.6f\<close>, from the difference in microseconds.
  The difference of two times of one day has at most eleven significant digits, so the
  float and its six decimals are exact.
\<close>

definition fixed6 :: "int \<Rightarrow> string" where
  "fixed6 us =
     (if us < 0 then ''-'' else []) @ show_digits (\<bar>us\<bar> div 1000000) @ ''.''
       @ rjust_zero 6 (show_digits (\<bar>us\<bar> mod 1000000))"

text \<open>\<^verbatim>\<open>int(relative_time)\<close>: the seconds, rounded towards zero.\<close>

definition whole_seconds :: "int \<Rightarrow> int" where
  "whole_seconds us = (if us < 0 then - ((- us) div 1000000) else us div 1000000)"

definition join_lines :: "string list \<Rightarrow> string" where
  "join_lines ls = (case ls of [] \<Rightarrow> [] | l # rest \<Rightarrow> l @ concat (map (\<lambda>x. newline # x) rest))"

text \<open>\<^verbatim>\<open>p.replace(':', '_').replace('.', '_')\<close>\<close>

definition sanitize :: "string \<Rightarrow> string" where
  "sanitize p = map (\<lambda>c. if c = CHR '':'' \<or> c = CHR ''.'' then CHR ''_'' else c) p"

text \<open>\<^verbatim>\<open>p.split(':')[-1]\<close>\<close>

definition last_segment :: "string \<Rightarrow> string" where
  "last_segment p = rev (takeWhile (\<lambda>c. c \<noteq> CHR '':'') (rev p))"

section \<open>The tabular trace\<close>

text \<open>
  \<^verbatim>\<open>print_wireshark_style\<close> prints; the model returns the texts handed to
  \<^verbatim>\<open>print\<close>, in order, and the exception that ended the function, if one did.
\<close>

definition esc :: string where
  "esc = [CHR 0x1B]"

definition color_code :: "exchange \<Rightarrow> string" where
  "color_code log =
     (if msg_type log = PStr ''ack'' then esc @ ''[92m''
      else if msg_type log = PStr ''gossip'' then esc @ ''[94m''
      else if msg_type log = PStr ''auth'' then esc @ ''[93m''
      else if protocol log = ''UDP'' then esc @ ''[90m''
      else esc @ ''[0m'')"

text \<open>
  Lines 138 to 161 without the counters: the row of one record. \<^verbatim>\<open>log['timestamp']\<close>
  is read first and is a KeyError on a record without that key.
\<close>

definition table_row :: "int \<Rightarrow> exchange \<Rightarrow> error + string" where
  "table_row start_time log =
     (case timestamp log of None \<Rightarrow> Inl KeyError
      | Some t \<Rightarrow>
     (case py_format_ljust 25 (source log) of Inl e \<Rightarrow> Inl e
      | Inr src \<Rightarrow>
     (case py_format_ljust 15 (msg_type log) of Inl e \<Rightarrow> Inl e
      | Inr ty \<Rightarrow>
          Inr (color_code log @ ljust 15 (fixed6 (t - start_time)) @ '' '' @ src @ '' ''
               @ ljust 25 (destination log) @ '' '' @ ljust 10 (protocol log) @ '' ''
               @ ty @ '' '' @ take 50 (info log) @ ''...'' @ esc @ ''[0m''))))"

text \<open>The first loop (line 137), with \<open>in_count\<close>, \<open>out_count\<close> and the output so far.\<close>

fun print_rows ::
  "int \<Rightarrow> exchange list \<Rightarrow> nat \<Rightarrow> nat \<Rightarrow> string list
     \<Rightarrow> (string list \<times> error) + (string list \<times> nat \<times> nat)" where
  "print_rows start_time [] in_count out_count out = Inr (out, in_count, out_count)"
| "print_rows start_time (log # logs) in_count out_count out =
     (case table_row start_time log of
        Inl e \<Rightarrow> Inl (out, e)
      | Inr row \<Rightarrow>
          if is_substring ''localhost'' (destination log)
          then print_rows start_time logs (Suc in_count) out_count (out @ [row])
          else print_rows start_time logs in_count (Suc out_count) (out @ [row]))"

text \<open>\<^verbatim>\<open>timeline_intervals[interval].append(log['type'])\<close>, a new key going to the end.\<close>

fun interval_append :: "(int \<times> pyval list) list \<Rightarrow> int \<Rightarrow> pyval \<Rightarrow> (int \<times> pyval list) list" where
  "interval_append [] k v = [(k, [v])]"
| "interval_append ((k', vs) # rest) k v =
     (if k' = k then (k', vs @ [v]) # rest else (k', vs) # interval_append rest k v)"

text \<open>The second loop (line 175).\<close>

fun timeline_loop ::
  "int \<Rightarrow> exchange list \<Rightarrow> (int \<times> pyval list) list \<Rightarrow> error + (int \<times> pyval list) list" where
  "timeline_loop start_time [] timeline_intervals = Inr timeline_intervals"
| "timeline_loop start_time (log # logs) timeline_intervals =
     (case timestamp log of
        None \<Rightarrow> Inl KeyError
      | Some t \<Rightarrow>
          timeline_loop start_time logs
            (interval_append timeline_intervals (whole_seconds (t - start_time)) (msg_type log)))"

definition glyph :: "pyval \<Rightarrow> char" where
  "glyph event_type =
     (if event_type = PStr ''ack'' then CHR ''A''
      else if event_type = PStr ''gossip'' then CHR ''G''
      else if event_type = PStr ''auth'' then CHR ''H''
      else CHR ''.'')"

definition timeline_line :: "(int \<times> pyval list) list \<Rightarrow> int \<Rightarrow> string" where
  "timeline_line timeline_intervals i =
     ljust 5 (show_int i) @ ''s | ''
       @ map glyph (case map_of timeline_intervals i of None \<Rightarrow> [] | Some events \<Rightarrow> events)"

definition max_interval :: "(int \<times> pyval list) list \<Rightarrow> int" where
  "max_interval timeline_intervals =
     (case map fst timeline_intervals of [] \<Rightarrow> 0 | k # ks \<Rightarrow> foldl max k ks)"

definition table_header :: string where
  "table_header = ljust 15 ''Time'' @ '' '' @ ljust 25 ''Source'' @ '' ''
     @ ljust 25 ''Destination'' @ '' '' @ ljust 10 ''Protocol'' @ '' '' @ ljust 15 ''Type''
     @ '' '' @ ''Info''"

definition print_wireshark_style :: "exchange list \<Rightarrow> string list \<times> error option" where
  "print_wireshark_style parsed_logs =
     (case parsed_logs of
        [] \<Rightarrow> ([''No logs to display.''], None)
      | first # others \<Rightarrow>
     (case timestamp first of
        None \<Rightarrow> ([table_header, replicate 140 (CHR ''-'')], Some KeyError)
      | Some start_time \<Rightarrow>
     (case print_rows start_time parsed_logs 0 0 [table_header, replicate 140 (CHR ''-'')] of
        Inl (out, e) \<Rightarrow> (out, Some e)
      | Inr (out, in_count, out_count) \<Rightarrow>
     (case timeline_loop start_time parsed_logs [] of
        Inl e \<Rightarrow>
          (out @ [newline # replicate 140 (CHR ''=''),
                  ''Total Packets: '' @ show_int (int (length parsed_logs)),
                  ''Incoming Packets: '' @ show_int (int in_count),
                  ''Outgoing Packets: '' @ show_int (int out_count),
                  replicate 140 (CHR ''=''),
                  newline # ''Time Plot (Relative Seconds):'',
                  replicate 140 (CHR ''-'')], Some e)
      | Inr timeline_intervals \<Rightarrow>
          (out @ [newline # replicate 140 (CHR ''=''),
                  ''Total Packets: '' @ show_int (int (length parsed_logs)),
                  ''Incoming Packets: '' @ show_int (int in_count),
                  ''Outgoing Packets: '' @ show_int (int out_count),
                  replicate 140 (CHR ''=''),
                  newline # ''Time Plot (Relative Seconds):'',
                  replicate 140 (CHR ''-'')]
             @ map (timeline_line timeline_intervals) [0 .. max_interval timeline_intervals]
             @ [replicate 140 (CHR ''-'')], None)))))"

section \<open>The diagram generators\<close>

text \<open>
  The participants: \<^verbatim>\<open>sorted(list(set(...)))\<close> over every source and destination. A
  destination is always a string. A source that is a list or a dict cannot enter a
  set, and any other source that is not a string cannot be compared with the
  destinations when sorting: each is a TypeError.
\<close>

fun endpoint_names :: "exchange list \<Rightarrow> string list option" where
  "endpoint_names [] = Some []"
| "endpoint_names (log # logs) =
     (case source log of
        PStr s \<Rightarrow> (case endpoint_names logs of None \<Rightarrow> None
                   | Some names \<Rightarrow> Some (s # destination log # names))
      | _ \<Rightarrow> None)"

definition participants :: "exchange list \<Rightarrow> error + string list" where
  "participants parsed_logs =
     (case endpoint_names parsed_logs of
        None \<Rightarrow> Inl TypeError
      | Some names \<Rightarrow> Inr (sort (remdups names)))"

text \<open>
  Lines 217 to 232 of \<^verbatim>\<open>generate_sequence_diagram_plantuml\<close>: the arrows, one for
  each record.
\<close>

fun sequence_arrows :: "exchange list \<Rightarrow> error + string list" where
  "sequence_arrows [] = Inr []"
| "sequence_arrows (log # logs) =
     (case source log of
        PStr src \<Rightarrow>
          (case py_str (msg_type log) of Inl e \<Rightarrow> Inl e
           | Inr message_type \<Rightarrow>
          (case sequence_arrows logs of Inl e \<Rightarrow> Inl e
           | Inr rest \<Rightarrow>
               Inr ((sanitize src @ '' ''
                     @ (if is_substring ''localhost'' src then ''->'' else ''<-'') @ '' ''
                     @ sanitize (destination log) @ '': ['' @ message_type @ ''] ''
                     @ (if 30 < length (info log) then take 30 (info log) @ ''...''
                        else info log)) # rest)))
      | _ \<Rightarrow> Inl AttributeError)"

definition generate_sequence_diagram_plantuml :: "exchange list \<Rightarrow> error + string" where
  "generate_sequence_diagram_plantuml parsed_logs =
     (case participants parsed_logs of Inl e \<Rightarrow> Inl e
      | Inr ps \<Rightarrow>
     (case sequence_arrows parsed_logs of Inl e \<Rightarrow> Inl e
      | Inr arrows \<Rightarrow>
          Inr (join_lines ([''@startuml'', ''skinparam monochrome true'']
                 @ map (\<lambda>p. ''participant '' @ sanitize p) ps @ [[]] @ arrows
                 @ [''@enduml'']))))"

text \<open>The loop of \<^verbatim>\<open>generate_activity_diagram_plantuml\<close>, with the index of \<^verbatim>\<open>enumerate\<close>.\<close>

fun activity_blocks :: "nat \<Rightarrow> exchange list \<Rightarrow> error + string list" where
  "activity_blocks i [] = Inr []"
| "activity_blocks i (log # logs) =
     (case py_str (msg_type log) of Inl e \<Rightarrow> Inl e
      | Inr message_type \<Rightarrow>
     (case py_in ''localhost'' (source log) of Inl e \<Rightarrow> Inl e
      | Inr local \<Rightarrow>
     (case activity_blocks (Suc i) logs of Inl e \<Rightarrow> Inl e
      | Inr rest \<Rightarrow>
          Inr (((if local then ''#green:Local Host sends '' else ''#blue:Remote Host sends '')
                @ message_type @ '' ('' @ show_int (int i) @ '');'') # rest))))"

definition generate_activity_diagram_plantuml :: "exchange list \<Rightarrow> error + string" where
  "generate_activity_diagram_plantuml parsed_logs =
     (case activity_blocks 0 parsed_logs of Inl e \<Rightarrow> Inl e
      | Inr blocks \<Rightarrow>
          Inr (join_lines ([''@startuml'', ''skinparam monochrome true'', ''start'']
                 @ blocks @ [''stop'', ''@enduml''])))"

text \<open>
  The inner loop of the two state renderers, for one participant: the index, the current
  state and the lines so far. \<open>fmt current new event\<close> is the line of a transition.
  It runs behind \<open>participants\<close>, so every source is a string there.
\<close>

fun state_steps ::
  "(string \<Rightarrow> string \<Rightarrow> string \<Rightarrow> string) \<Rightarrow> string \<Rightarrow> nat \<Rightarrow> exchange list \<Rightarrow> string
     \<Rightarrow> string list \<Rightarrow> error + (string \<times> string list)" where
  "state_steps fmt participant i [] current_state out = Inr (current_state, out)"
| "state_steps fmt participant i (log # logs) current_state out =
     (if source log = PStr participant then
        (case py_str (msg_type log) of Inl e \<Rightarrow> Inl e
         | Inr ty \<Rightarrow>
             state_steps fmt participant (Suc i) logs
               (''Sent_'' @ ty @ ''_'' @ show_int (int i))
               (out @ [fmt current_state (''Sent_'' @ ty @ ''_'' @ show_int (int i))
                         (''Sends '' @ ty)]))
      else if destination log = participant then
        (case py_str (msg_type log) of Inl e \<Rightarrow> Inl e
         | Inr ty \<Rightarrow>
             state_steps fmt participant (Suc i) logs
               (''Received_'' @ ty @ ''_'' @ show_int (int i))
               (out @ [fmt current_state (''Received_'' @ ty @ ''_'' @ show_int (int i))
                         (''Receives '' @ ty)]))
      else state_steps fmt participant (Suc i) logs current_state out)"

text \<open>The outer loop of \<^verbatim>\<open>generate_state_diagram_plantuml\<close> over the participants.\<close>

fun state_diagrams :: "exchange list \<Rightarrow> string list \<Rightarrow> string list \<Rightarrow> error + string list" where
  "state_diagrams parsed_logs [] plantuml_output = Inr plantuml_output"
| "state_diagrams parsed_logs (participant # ps) plantuml_output =
     (case state_steps (\<lambda>current new event. current @ '' --> '' @ new @ '' : '' @ event)
             participant 0 parsed_logs ''Idle''
             (plantuml_output
                @ [''@startuml State Diagram for '' @ sanitize participant,
                   ''skinparam monochrome true'', ''[*] --> Idle'']) of
        Inl e \<Rightarrow> Inl e
      | Inr (current_state, out) \<Rightarrow>
          state_diagrams parsed_logs ps
            (out @ [current_state @ '' --> [*]'', ''@enduml'', [newline]]))"

definition generate_state_diagram_plantuml :: "exchange list \<Rightarrow> error + string" where
  "generate_state_diagram_plantuml parsed_logs =
     (case participants parsed_logs of Inl e \<Rightarrow> Inl e
      | Inr ps \<Rightarrow>
     (case state_diagrams parsed_logs ps [] of Inl e \<Rightarrow> Inl e
      | Inr plantuml_output \<Rightarrow> Inr (join_lines plantuml_output)))"

section \<open>The ASCII renderers\<close>

text \<open>\<^verbatim>\<open>participant_cols[p]\<close>: fifteen columns for each participant before \<open>p\<close>.\<close>

fun index_of :: "string list \<Rightarrow> string \<Rightarrow> nat" where
  "index_of [] p = 0"
| "index_of (q # qs) p = (if q = p then 0 else Suc (index_of qs p))"

definition participant_col :: "string list \<Rightarrow> string \<Rightarrow> nat" where
  "participant_col ps p = index_of ps p * 15"

text \<open>\<^verbatim>\<open>for i in range(a, b): line[i] = '-'\<close>\<close>

definition dashes_between :: "nat \<Rightarrow> nat \<Rightarrow> string \<Rightarrow> string" where
  "dashes_between a b line = foldl (\<lambda>l i. l[i := CHR ''-'']) line [a ..< b]"

text \<open>Lines 367 to 369: the label, as far as the line reaches.\<close>

fun write_text :: "nat \<Rightarrow> string \<Rightarrow> string \<Rightarrow> string" where
  "write_text pos [] line = line"
| "write_text pos (c # cs) line =
     write_text (Suc pos) cs (if pos < length line then line[pos := c] else line)"

text \<open>Lines 336 to 371: the line of one record, whose source is the string \<open>sender\<close>.\<close>

definition sequence_line :: "string list \<Rightarrow> string \<Rightarrow> string \<Rightarrow> string \<Rightarrow> string" where
  "sequence_line ps sender receiver message_type =
     (let sender_col = participant_col ps sender;
          receiver_col = participant_col ps receiver;
          blank = replicate (max sender_col receiver_col + 15) (CHR 0x20);
          lifelines = foldl (\<lambda>l col. if col < length l then l[col := CHR ''|''] else l) blank
                        (map (participant_col ps) ps)
      in if sender_col < receiver_col then
           write_text (sender_col + 1) (''['' @ message_type @ '']'')
             (((dashes_between (sender_col + 1) receiver_col lifelines)
                 [receiver_col := CHR ''>''])[sender_col := CHR ''|''])
         else
           write_text (receiver_col + 1) (''['' @ message_type @ '']'')
             (((dashes_between (receiver_col + 1) sender_col lifelines)
                 [receiver_col := CHR ''<''])[sender_col := CHR ''|'']))"

fun sequence_lines :: "string list \<Rightarrow> exchange list \<Rightarrow> error + string list" where
  "sequence_lines ps [] = Inr []"
| "sequence_lines ps (log # logs) =
     (case source log of
        PStr sender \<Rightarrow>
          (case py_str (msg_type log) of Inl e \<Rightarrow> Inl e
           | Inr message_type \<Rightarrow>
          (case sequence_lines ps logs of Inl e \<Rightarrow> Inl e
           | Inr rest \<Rightarrow>
               Inr (sequence_line ps sender (destination log) message_type # rest)))
      | _ \<Rightarrow> Inl KeyError)"

definition generate_ascii_sequence_diagram :: "exchange list \<Rightarrow> error + string" where
  "generate_ascii_sequence_diagram parsed_logs =
     (case participants parsed_logs of Inl e \<Rightarrow> Inl e
      | Inr ps \<Rightarrow>
     (case sequence_lines ps parsed_logs of Inl e \<Rightarrow> Inl e
      | Inr body \<Rightarrow>
          Inr (join_lines ([''ASCII Sequence Diagram:'', ''-----------------------'',
                   concat (map (\<lambda>p. ljust 15 (last_segment p)) ps),
                   replicate (length (concat (map (\<lambda>p. ljust 15 (last_segment p)) ps)))
                     (CHR ''-'')]
                 @ body @ [''-----------------------'']))))"

text \<open>The loop of \<^verbatim>\<open>generate_ascii_activity_flow\<close>.\<close>

fun activity_lines :: "nat \<Rightarrow> exchange list \<Rightarrow> error + string list" where
  "activity_lines i [] = Inr []"
| "activity_lines i (log # logs) =
     (case py_in ''localhost'' (source log) of Inl e \<Rightarrow> Inl e
      | Inr local \<Rightarrow>
     (case py_str (msg_type log) of Inl e \<Rightarrow> Inl e
      | Inr ty \<Rightarrow>
     (case py_str (source log) of Inl e \<Rightarrow> Inl e
      | Inr src \<Rightarrow>
     (case activity_lines (Suc i) logs of Inl e \<Rightarrow> Inl e
      | Inr rest \<Rightarrow>
          Inr ((rjust_zero 3 (show_int (int i)) @ '': '' @ (if local then ''OUT'' else ''IN'')
                @ '' '' @ ty @ '' ('' @ src @ '' -> '' @ destination log @ '')'') # rest)))))"

definition generate_ascii_activity_flow :: "exchange list \<Rightarrow> error + string" where
  "generate_ascii_activity_flow parsed_logs =
     (case activity_lines 0 parsed_logs of Inl e \<Rightarrow> Inl e
      | Inr body \<Rightarrow>
          Inr (join_lines ([''ASCII Activity Flow:'', ''---------------------'']
                 @ body @ [''---------------------''])))"

text \<open>The outer loop of \<^verbatim>\<open>generate_ascii_state_flow\<close> over the participants.\<close>

fun state_flows :: "exchange list \<Rightarrow> string list \<Rightarrow> string list \<Rightarrow> error + string list" where
  "state_flows parsed_logs [] output = Inr output"
| "state_flows parsed_logs (participant # ps) output =
     (case state_steps
             (\<lambda>current new event. ''  '' @ current @ '' --('' @ event @ '')--> '' @ new)
             participant 0 parsed_logs ''Idle''
             (output @ [newline # ''Participant: '' @ participant,
                        ''  Initial State: Idle'']) of
        Inl e \<Rightarrow> Inl e
      | Inr (current_state, out) \<Rightarrow>
          state_flows parsed_logs ps (out @ [''  '' @ current_state @ '' --(End)--> Final'']))"

definition generate_ascii_state_flow :: "exchange list \<Rightarrow> error + string" where
  "generate_ascii_state_flow parsed_logs =
     (case participants parsed_logs of Inl e \<Rightarrow> Inl e
      | Inr ps \<Rightarrow>
     (case state_flows parsed_logs ps
             [''ASCII State Flow (per participant):'',
              ''-----------------------------------''] of
        Inl e \<Rightarrow> Inl e
      | Inr output \<Rightarrow> Inr (join_lines (output @ [''-----------------------------------'']))))"

section \<open>Example inputs\<close>

text \<open>
  The four lines of the round-trip scenario of the specification. A backslash cannot
  stand inside a string literal, so it is spliced in as \<open>CHR 0x5C\<close>.
\<close>

definition scenario_payload1 :: string where
  \<open>scenario_payload1 = ''{"type":"gossip","payload":1}''\<close>

definition scenario_line1 :: string where
  "scenario_line1 = ''node1: Sending message to node2: '' @ scenario_payload1"

definition scenario_payload2 :: string where
  \<open>scenario_payload2 =
     ''{"sender":"node1","message":"{'' @ [CHR 0x5C] @ ''"type'' @ [CHR 0x5C] @ ''":''
     @ [CHR 0x5C] @ ''"ack'' @ [CHR 0x5C] @ ''"}"}''\<close>

definition scenario_line2 :: string where
  "scenario_line2 = ''node2: Received message from 10.0.0.5:4000: '' @ scenario_payload2"

text \<open>The inner message of the second line, and the records of the first two lines.\<close>

definition ack_text :: string where
  \<open>ack_text = ''{"type":"ack"}''\<close>

definition gossip_record :: exchange where
  "gossip_record = \<lparr>timestamp = None, source = PStr ''node1'', destination = ''node2'',
     protocol = ''P2P'', msg_type = PStr ''gossip'', info = scenario_payload1\<rparr>"

definition ack_record :: exchange where
  "ack_record = \<lparr>timestamp = None, source = PStr ''node1'', destination = ''node2'',
     protocol = ''P2P'', msg_type = PStr ''ack'', info = scenario_payload2\<rparr>"

definition scenario_line3 :: string where
  \<open>scenario_line3 =
     ''UDPTransport: Sending message to 10.0.0.9:5000: {"sender":"node3","message":"{''
     @ [CHR 0x5C] @ ''"type'' @ [CHR 0x5C] @ ''":'' @ [CHR 0x5C] @ ''"auth'' @ [CHR 0x5C]
     @ ''"}"}''\<close>

definition scenario_line4 :: string where
  \<open>scenario_line4 =
     ''[UDP_LOG] [IN] [12:00:00.000] [4000] [10.0.0.5] [5000] [{"type":"ping"}]''\<close>

definition scenario_lines :: "string list" where
  "scenario_lines = [scenario_line1, scenario_line2, scenario_line3, scenario_line4]"

text \<open>The fourth line in the shape of the fourth pattern: address and port in one bracket.\<close>

definition scenario_line4_joined :: string where
  \<open>scenario_line4_joined =
     ''[UDP_LOG] [IN] [12:00:00.000] [4000] [10.0.0.5:5000] [{"type":"ping"}]''\<close>

text \<open>An inbound line whose envelope names a sender and carries a message that is no JSON.\<close>

definition inner_failure_payload :: string where
  \<open>inner_failure_payload = ''{"sender":"node1","message":"hello"}''\<close>

definition inner_failure_line :: string where
  "inner_failure_line = ''node2: Received message from 10.0.0.5:4000: '' @ inner_failure_payload"

text \<open>An inbound line whose envelope names the empty sender.\<close>

definition empty_sender_payload :: string where
  \<open>empty_sender_payload = ''{"sender":""}''\<close>

definition empty_sender_line :: string where
  "empty_sender_line = ''node1: Received message from 1.2.3.4:5: '' @ empty_sender_payload"

text \<open>An outbound line whose payload has the empty type.\<close>

definition empty_type_payload :: string where
  \<open>empty_type_payload = ''{"type":""}''\<close>

definition empty_type_line :: string where
  "empty_type_line = ''node1: Sending message to node2: '' @ empty_type_payload"

text \<open>An inbound line with a payload that is plain text.\<close>

definition plain_inbound_line :: string where
  "plain_inbound_line = ''node2: Received message from 10.0.0.5:4000: hello''"

text \<open>A peer line with names that are not of the form \<^verbatim>\<open>node\d+\<close>.\<close>

definition alice_line :: string where
  "alice_line = ''alice: Sending message to bob: hi''"

text \<open>An outbound line with a payload that is plain text, and its record.\<close>

definition plain_outbound_line :: string where
  "plain_outbound_line = ''node1: Sending message to node2: hi''"

definition untimed_record :: exchange where
  "untimed_record = \<lparr>timestamp = None, source = PStr ''node1'', destination = ''node2'',
     protocol = ''P2P'', msg_type = PStr ''text'', info = ''hi''\<rparr>"

text \<open>The numbers of the patterns that match a text, in the order the parser tries them.\<close>

definition matching_patterns :: "string \<Rightarrow> nat list" where
  "matching_patterns s =
     (if match_sending s = None then [] else [1])
     @ (if match_received s = None then [] else [2])
     @ (if match_transport s = None then [] else [3])
     @ (if match_udp_log s = None then [] else [4])"


text \<open>A name of the form \<^verbatim>\<open>node\d+\<close>.\<close>

definition is_node_name :: "string \<Rightarrow> bool" where
  "is_node_name s = (take 4 s = ''node'' \<and> drop 4 s \<noteq> [] \<and> list_all is_digit (drop 4 s))"

section \<open>The renderers, record by record\<close>





















section \<open>The patterns exclude each other\<close>

lemma lit_Some: "lit p s = Some r \<longleftrightarrow> s = p @ r"
  unfolding lit_def
  by (metis append_eq_conv_conj append_take_drop_id option.distinct(1) option.inject)

lemma many1_Some:
  "many1 P s = Some (g, r) \<Longrightarrow>
     g \<noteq> [] \<and> s = g @ r \<and> g = takeWhile P s \<and> r = dropWhile P s"
  unfolding many1_def by (auto split: if_splits)

lemma node_name_Some:
  "node_name s = Some (g, r) \<Longrightarrow>
     \<exists>ds. ds \<noteq> [] \<and> g = ''node'' @ ds \<and> s = g @ r
        \<and> ds = takeWhile is_digit (drop 4 s) \<and> r = dropWhile is_digit (drop 4 s)"
  unfolding node_name_def
  by (auto split: option.splits simp: lit_Some dest!: many1_Some)

lemma sending_not_received: "match_sending s = Some x \<Longrightarrow> match_received s = None"
  unfolding match_sending_def match_received_def
  by (auto split: option.splits simp: lit_Some)

lemma sending_not_transport: "match_sending s = Some x \<Longrightarrow> match_transport s = None"
  unfolding match_sending_def match_transport_def node_name_def
  by (auto split: option.splits simp: lit_Some)

lemma sending_not_udp_log: "match_sending s = Some x \<Longrightarrow> match_udp_log s = None"
  unfolding match_sending_def match_udp_log_def node_name_def
  by (auto split: option.splits simp: lit_Some)

lemma received_not_transport: "match_received s = Some x \<Longrightarrow> match_transport s = None"
  unfolding match_received_def match_transport_def node_name_def
  by (auto split: option.splits simp: lit_Some)

lemma received_not_udp_log: "match_received s = Some x \<Longrightarrow> match_udp_log s = None"
  unfolding match_received_def match_udp_log_def node_name_def
  by (auto split: option.splits simp: lit_Some)

lemma transport_not_udp_log: "match_transport s = Some x \<Longrightarrow> match_udp_log s = None"
  unfolding match_transport_def match_udp_log_def
  by (auto split: option.splits simp: lit_Some)

lemma received_not_sending: "match_received s = Some x \<Longrightarrow> match_sending s = None"
  using sending_not_received by (cases "match_sending s") auto

lemma transport_not_sending: "match_transport s = Some x \<Longrightarrow> match_sending s = None"
  using sending_not_transport by (cases "match_sending s") auto

lemma transport_not_received: "match_transport s = Some x \<Longrightarrow> match_received s = None"
  using received_not_transport by (cases "match_received s") auto

lemma udp_log_not_sending: "match_udp_log s = Some x \<Longrightarrow> match_sending s = None"
  using sending_not_udp_log by (cases "match_sending s") auto

lemma udp_log_not_received: "match_udp_log s = Some x \<Longrightarrow> match_received s = None"
  using received_not_udp_log by (cases "match_received s") auto

lemma udp_log_not_transport: "match_udp_log s = Some x \<Longrightarrow> match_transport s = None"
  using transport_not_udp_log by (cases "match_transport s") auto

text \<open>
  Claim C9. The four line patterns exclude each other: for every text at most one of
  the outbound peer, inbound peer, datagram transport and instrumented datagram patterns
  matches, so a line yields at most one record whatever the order in which they are tried.
\<close>

theorem recognizers_mutually_exclusive: "length (matching_patterns s) \<le> 1"
proof (cases "match_sending s")
  case (Some x)
  then show ?thesis
    by (simp add: matching_patterns_def sending_not_received sending_not_transport
        sending_not_udp_log)
next
  case no_sending: None
  show ?thesis
  proof (cases "match_received s")
    case (Some x)
    then show ?thesis
      by (simp add: matching_patterns_def no_sending received_not_transport
          received_not_udp_log)
  next
    case no_received: None
    show ?thesis
    proof (cases "match_transport s")
      case (Some x)
      then show ?thesis
        by (simp add: matching_patterns_def no_sending no_received transport_not_udp_log)
    next
      case None
      then show ?thesis
        by (simp add: matching_patterns_def no_sending no_received)
    qed
  qed
qed

theorem recognizers_mutually_exclusive_witness:
  "length (matching_patterns scenario_line1) \<le> 1 \<and> matching_patterns scenario_line1 = [1]"
proof (rule conjI [OF recognizers_mutually_exclusive])
  show "matching_patterns scenario_line1 = [1]"
    unfolding scenario_line1_def scenario_payload1_def by code_simp
qed

section \<open>Inbound lines with a payload that does not decode\<close>

text \<open>
  Claim C6. For every inbound peer line whose payload is not valid structured data (the
  outer decode raises JSONDecodeError), the record has the transport-level address
  captured from the line as its source and the plain-text sentinel \<^verbatim>\<open>'text'\<close> as its type.
\<close>

theorem inbound_undecodable_payload:
  assumes "match_received (strip line) = Some (peer, source_ip, payload)"
    and "loads payload = Inl JSONDecodeError"
  shows "parse_line loads line =
           Inr (Some \<lparr>timestamp = None, source = PStr source_ip, destination = peer,
                  protocol = ''P2P'', msg_type = PStr ''text'', info = payload\<rparr>)"
proof -
  have "match_sending (strip line) = None"
    using assms(1) by (rule received_not_sending)
  then show ?thesis
    using assms
    by (simp add: parse_line_def envelope_type_def envelope_body_def try_except_def)
qed

theorem inbound_undecodable_payload_witness:
  "match_received (strip plain_inbound_line) = Some (''node2'', ''10.0.0.5'', ''hello'')
   \<and> json_loads ''hello'' = Inl JSONDecodeError
   \<and> parse_line json_loads plain_inbound_line =
       Inr (Some \<lparr>timestamp = None, source = PStr ''10.0.0.5'', destination = ''node2'',
              protocol = ''P2P'', msg_type = PStr ''text'', info = ''hello''\<rparr>)"
proof -
  have m: "match_received (strip plain_inbound_line) = Some (''node2'', ''10.0.0.5'', ''hello'')"
    unfolding plain_inbound_line_def by code_simp
  have d: "json_loads ''hello'' = Inl JSONDecodeError"
    by code_simp
  show ?thesis
    using m d inbound_undecodable_payload [where loads = json_loads, OF m d] by simp
qed

section \<open>What the classifiers return\<close>

lemma py_get_Inr:
  "py_get v k d = Inr x \<Longrightarrow>
     \<exists>kvs. v = PDict kvs \<and> (map_of kvs k = Some x \<or> map_of kvs k = None \<and> x = d)"
  unfolding py_get_def by (auto split: pyval.splits option.splits)

lemma envelope_body_Inr:
  assumes "envelope_body loads p = Inr (t, src)"
  shows "(\<exists>env. loads p = Inr (PDict env)
            \<and> (map_of env ''sender'' = Some src \<or> src = PStr ''unknown''))
       \<and> (t = PStr ''json''
          \<or> (\<exists>q fields. loads q = Inr (PDict fields) \<and> map_of fields ''type'' = Some t))"
  using assms unfolding envelope_body_def loads_value_def
  by (auto split: sum.splits pyval.splits dest!: py_get_Inr)

lemma envelope_type_Inr:
  assumes "envelope_type loads p fb = Inr (t, src)"
  shows "(t = PStr ''text'' \<and> src = PStr fb) \<or> envelope_body loads p = Inr (t, src)"
  using assms unfolding envelope_type_def try_except_def
  by (auto split: sum.splits if_splits)

lemma envelope_type_decode_error:
  "loads p = Inl JSONDecodeError \<Longrightarrow> envelope_type loads p fb = Inr (PStr ''text'', PStr fb)"
  by (simp add: envelope_type_def envelope_body_def try_except_def)

lemma direct_type_Inr:
  assumes "direct_type loads p = Inr t"
  shows "t = PStr ''text'' \<or> t = PStr ''json''
       \<or> (\<exists>fields. loads p = Inr (PDict fields) \<and> map_of fields ''type'' = Some t)"
  using assms unfolding direct_type_def try_except_def
  by (auto split: sum.splits if_splits dest!: py_get_Inr)

lemma direct_type_decode_error:
  "loads p = Inl JSONDecodeError \<Longrightarrow> direct_type loads p = Inr (PStr ''text'')"
  by (simp add: direct_type_def try_except_def)

lemma optional_type_Inr:
  assumes "optional_type loads p = Inr t"
  shows "t = PStr ''UDP_DATA''
       \<or> (\<exists>fields. loads p = Inr (PDict fields) \<and> map_of fields ''type'' = Some t)"
  using assms unfolding optional_type_def try_except_def py_in_def py_getitem_def
  by (auto split: sum.splits if_splits pyval.splits option.splits)

lemma optional_type_decode_error:
  "loads p = Inl JSONDecodeError \<Longrightarrow> optional_type loads p = Inr (PStr ''UDP_DATA'')"
  by (simp add: optional_type_def try_except_def)

text \<open>The record of a line, by the pattern that matched.\<close>

lemma parse_line_cases:
  assumes "parse_line loads line = Inr (Some r)"
  obtains
    (sending) g1 g2 p t where "match_sending (strip line) = Some (g1, g2, p)"
      "direct_type loads p = Inr t"
      "r = \<lparr>timestamp = None, source = PStr g1, destination = g2, protocol = ''P2P'',
             msg_type = t, info = p\<rparr>"
  | (received) g1 ip p t src where "match_sending (strip line) = None"
      "match_received (strip line) = Some (g1, ip, p)"
      "envelope_type loads p ip = Inr (t, src)"
      "r = \<lparr>timestamp = None, source = src, destination = g1, protocol = ''P2P'',
             msg_type = t, info = p\<rparr>"
  | (transport) g1 g2 p t src where "match_sending (strip line) = None"
      "match_received (strip line) = None"
      "match_transport (strip line) = Some (g1, g2, p)"
      "envelope_type loads p ''unknown'' = Inr (t, src)"
      "r = \<lparr>timestamp = None, source = src, destination = g1 @ '':'' @ g2,
             protocol = ''UDP'', msg_type = t, info = p\<rparr>"
  | (udp_log) d ts lp ra rp p t tm where "match_sending (strip line) = None"
      "match_received (strip line) = None"
      "match_transport (strip line) = None"
      "match_udp_log (strip line) = Some (d, ts, lp, ra, rp, p)"
      "strptime ts = Inr tm" "optional_type loads p = Inr t"
      "r = \<lparr>timestamp = Some tm,
             source = PStr (if d = ''IN'' then ra @ '':'' @ rp else ''localhost:'' @ lp),
             destination = (if d = ''IN'' then ''localhost:'' @ lp else ra @ '':'' @ rp),
             protocol = ''UDP'', msg_type = t, info = p\<rparr>"
  using assms unfolding parse_line_def Let_def
  by (auto split: option.splits sum.splits prod.splits)

lemma node_name_nonempty: "node_name s = Some (g, r) \<Longrightarrow> g \<noteq> []"
  using node_name_Some by fastforce

lemma match_sending_names:
  assumes "match_sending s = Some (g1, g2, p)"
  shows "g1 \<noteq> [] \<and> g2 \<noteq> []"
proof -
  from assms obtain r1 r2 r3 where "node_name s = Some (g1, r1)" "node_name r2 = Some (g2, r3)"
    by (auto simp: match_sending_def split: option.splits)
  then show ?thesis by (simp add: node_name_nonempty)
qed

lemma match_received_names:
  assumes "match_received s = Some (g1, ip, p)"
  shows "g1 \<noteq> [] \<and> ip \<noteq> []"
proof -
  from assms obtain r1 r2 r3
    where "node_name s = Some (g1, r1)" "many1 is_ip_char r2 = Some (ip, r3)"
    by (auto simp: match_received_def split: option.splits)
  then show ?thesis by (auto simp: node_name_nonempty dest: many1_Some)
qed

section \<open>The sender inside an inbound envelope\<close>

text \<open>
  Claim C3, as the specification states it: for every inbound peer line whose payload is
  valid structured data with a sender field of value X, the record has source X and not
  the transport address. It fails: the line below decodes to an envelope with sender
  \<^verbatim>\<open>node1\<close>, its message \<^verbatim>\<open>hello\<close> is no JSON, and the \<^verbatim>\<open>except\<close> clause that
  catches the inner failure sets the source to the captured address.
\<close>

theorem inbound_sender_counterexample:
  "match_received (strip inner_failure_line) =
     Some (''node2'', ''10.0.0.5'', inner_failure_payload)
   \<and> json_loads inner_failure_payload =
       Inr (PDict [(''sender'', PStr ''node1''), (''message'', PStr ''hello'')])
   \<and> parse_line json_loads inner_failure_line =
       Inr (Some \<lparr>timestamp = None, source = PStr ''10.0.0.5'', destination = ''node2'',
              protocol = ''P2P'', msg_type = PStr ''text'', info = inner_failure_payload\<rparr>)"
proof (intro conjI)
  show "match_received (strip inner_failure_line) =
      Some (''node2'', ''10.0.0.5'', inner_failure_payload)"
    unfolding inner_failure_line_def inner_failure_payload_def by code_simp
  show "json_loads inner_failure_payload =
      Inr (PDict [(''sender'', PStr ''node1''), (''message'', PStr ''hello'')])"
    unfolding inner_failure_payload_def by code_simp
  show "parse_line json_loads inner_failure_line =
      Inr (Some \<lparr>timestamp = None, source = PStr ''10.0.0.5'', destination = ''node2'',
             protocol = ''P2P'', msg_type = PStr ''text'', info = inner_failure_payload\<rparr>)"
    unfolding inner_failure_line_def inner_failure_payload_def by code_simp
qed

text \<open>
  Claim C3, amended: for every inbound peer line whose payload decodes to an object with
  a sender field of value X and whose message field (\<^verbatim>\<open>'{}'\<close> when absent) is a string
  that decodes to an object, the record has source X, and its type is the type field of
  the inner object (\<^verbatim>\<open>'json'\<close> when absent).
\<close>

theorem inbound_sender_is_source:
  assumes "match_received (strip line) = Some (peer, source_ip, payload)"
    and "loads payload = Inr (PDict envelope)"
    and "map_of envelope ''sender'' = Some x"
    and "loads_value loads
           (case map_of envelope ''message'' of Some m \<Rightarrow> m | None \<Rightarrow> PStr ''{}'')
         = Inr (PDict content)"
  shows "parse_line loads line =
           Inr (Some \<lparr>timestamp = None, source = x, destination = peer, protocol = ''P2P'',
                  msg_type = (case map_of content ''type'' of Some t \<Rightarrow> t
                              | None \<Rightarrow> PStr ''json''),
                  info = payload\<rparr>)"
proof -
  have "match_sending (strip line) = None"
    using assms(1) by (rule received_not_sending)
  moreover have "envelope_body loads payload =
      Inr (case map_of content ''type'' of Some t \<Rightarrow> t | None \<Rightarrow> PStr ''json'', x)"
    using assms(2-4) by (simp add: envelope_body_def py_get_def split: option.splits)
  ultimately show ?thesis
    using assms(1) by (simp add: parse_line_def envelope_type_def try_except_def)
qed

theorem inbound_sender_is_source_witness:
  "match_received (strip scenario_line2) = Some (''node2'', ''10.0.0.5'', scenario_payload2)
   \<and> json_loads scenario_payload2 =
       Inr (PDict [(''sender'', PStr ''node1''), (''message'', PStr ack_text)])
   \<and> json_loads ack_text = Inr (PDict [(''type'', PStr ''ack'')])
   \<and> parse_line json_loads scenario_line2 = Inr (Some ack_record)"
proof -
  have m: "match_received (strip scenario_line2) =
      Some (''node2'', ''10.0.0.5'', scenario_payload2)"
    unfolding scenario_line2_def scenario_payload2_def by code_simp
  have d: "json_loads scenario_payload2 =
      Inr (PDict [(''sender'', PStr ''node1''), (''message'', PStr ack_text)])"
    unfolding scenario_payload2_def ack_text_def by code_simp
  have s: "map_of [(''sender'', PStr ''node1''), (''message'', PStr ack_text)] ''sender''
      = Some (PStr ''node1'')"
    by simp
  have i: "json_loads ack_text = Inr (PDict [(''type'', PStr ''ack'')])"
    unfolding ack_text_def by code_simp
  then have i': "loads_value json_loads
      (case map_of [(''sender'', PStr ''node1''), (''message'', PStr ack_text)] ''message'' of
         Some m \<Rightarrow> m | None \<Rightarrow> PStr ''{}'')
      = Inr (PDict [(''type'', PStr ''ack'')])"
    by (simp add: loads_value_def)
  show ?thesis
    using m d i inbound_sender_is_source [where loads = json_loads, OF m d s i']
    by (simp add: ack_record_def)
qed

section \<open>Source and destination\<close>

text \<open>
  Claim C4, as the specification states it: every record has a non-empty source and a
  non-empty destination. It fails: the sender of an envelope is copied into the record
  as it is, and here it is the empty string.
\<close>

theorem empty_source_counterexample:
  "parse_line json_loads empty_sender_line =
     Inr (Some \<lparr>timestamp = None, source = PStr [], destination = ''node1'',
            protocol = ''P2P'', msg_type = PStr ''json'', info = empty_sender_payload\<rparr>)"
  unfolding empty_sender_line_def empty_sender_payload_def by code_simp

text \<open>
  Claim C4, amended: every record has a non-empty destination, and its source is a
  non-empty string unless it is the value of the sender field of the decoded payload,
  which is taken as it is.
\<close>

theorem endpoints_nonempty_unless_payload_sender:
  assumes "parse_line loads line = Inr (Some r)"
  shows "destination r \<noteq> []
       \<and> ((\<exists>s. source r = PStr s \<and> s \<noteq> [])
          \<or> (\<exists>envelope. loads (info r) = Inr (PDict envelope)
                \<and> map_of envelope ''sender'' = Some (source r)))"
  using assms
proof (cases rule: parse_line_cases)
  case (sending g1 g2 p t)
  then show ?thesis
    using match_sending_names [OF sending(1)] by simp
next
  case (received g1 ip p t src)
  have "src = PStr ip \<or> src = PStr ''unknown''
      \<or> (\<exists>env. loads p = Inr (PDict env) \<and> map_of env ''sender'' = Some src)"
    using received(3) by (auto dest!: envelope_type_Inr envelope_body_Inr)
  then show ?thesis
    using match_received_names [OF received(2)] received(4) by auto
next
  case (transport g1 g2 p t src)
  have "src = PStr ''unknown''
      \<or> (\<exists>env. loads p = Inr (PDict env) \<and> map_of env ''sender'' = Some src)"
    using transport(4) by (auto dest!: envelope_type_Inr envelope_body_Inr)
  then show ?thesis
    using transport(5) by auto
next
  case (udp_log d ts lp ra rp p t tm)
  then show ?thesis by auto
qed

theorem endpoints_nonempty_witness:
  "parse_line json_loads scenario_line1 = Inr (Some gossip_record)
   \<and> destination gossip_record = ''node2'' \<and> source gossip_record = PStr ''node1''"
proof -
  have p: "parse_line json_loads scenario_line1 = Inr (Some gossip_record)"
    unfolding scenario_line1_def scenario_payload1_def gossip_record_def by code_simp
  show ?thesis
    using p endpoints_nonempty_unless_payload_sender [OF p]
    by (simp add: gossip_record_def)
qed

section \<open>The type of a record\<close>

lemma envelope_body_type:
  assumes "envelope_body loads p = Inr (t, src)"
  shows "\<exists>envelope content. loads p = Inr (PDict envelope)
           \<and> loads_value loads
                (case map_of envelope ''message'' of Some m \<Rightarrow> m | None \<Rightarrow> PStr ''{}'')
              = Inr (PDict content)
           \<and> (t = PStr ''json'' \<or> map_of content ''type'' = Some t)"
proof -
  from assms obtain v where v: "loads p = Inr v"
    by (cases "loads p") (auto simp: envelope_body_def)
  from assms v obtain sender where "py_get v ''sender'' (PStr ''unknown'') = Inr sender"
    by (cases "py_get v ''sender'' (PStr ''unknown'')") (auto simp: envelope_body_def)
  then obtain envelope where e: "v = PDict envelope"
    by (auto dest: py_get_Inr)
  let ?m = "case map_of envelope ''message'' of Some m \<Rightarrow> m | None \<Rightarrow> PStr ''{}''"
  have g: "py_get v ''message'' (PStr ''{}'') = Inr ?m"
    by (simp add: e py_get_def split: option.splits)
  from assms v e g obtain c where c: "loads_value loads ?m = Inr c"
    by (cases "loads_value loads ?m")
       (auto simp: envelope_body_def py_get_def split: option.splits)
  from assms v e g c have "py_get c ''type'' (PStr ''json'') = Inr t"
    by (auto simp: envelope_body_def py_get_def [of "PDict envelope"] split: option.splits sum.splits)
  then obtain content where "c = PDict content"
    "map_of content ''type'' = Some t \<or> t = PStr ''json''"
    by (auto dest: py_get_Inr)
  with v e c show ?thesis by auto
qed

text \<open>
  Claim C5, as the specification states it: every record has a non-empty type, the
  sentinel of the pattern when decoding fails, and never an empty one. It fails: a type
  field of the payload is copied into the record as it is, and here it is the empty
  string.
\<close>

theorem empty_type_counterexample:
  "parse_line json_loads empty_type_line =
     Inr (Some \<lparr>timestamp = None, source = PStr ''node1'', destination = ''node2'',
            protocol = ''P2P'', msg_type = PStr [], info = empty_type_payload\<rparr>)"
  unfolding empty_type_line_def empty_type_payload_def by code_simp

text \<open>
  Claim C5, amended: when the payload of a record does not decode, the type is the
  sentinel of the pattern (\<^verbatim>\<open>'UDP_DATA'\<close> for an instrumented datagram event,
  \<^verbatim>\<open>'text'\<close> for the other three). In every record the type is a non-empty
  sentinel of its pattern (\<^verbatim>\<open>'UDP_DATA'\<close> for an instrumented datagram event,
  \<^verbatim>\<open>'text'\<close> or \<^verbatim>\<open>'json'\<close> for the other three) unless it is the value of the type
  field of the object that the record's own payload decodes to (for an inbound peer and
  a datagram transport line: of the object that the message field of that envelope
  decodes to), which is taken as it is.
\<close>

theorem type_sentinel_or_payload_type:
  assumes "parse_line loads line = Inr (Some r)"
  shows "(loads (info r) = Inl JSONDecodeError \<longrightarrow>
            msg_type r = PStr (if match_udp_log (strip line) = None then ''text''
                               else ''UDP_DATA''))
       \<and> (msg_type r \<in> (if match_udp_log (strip line) = None
                          then {PStr ''text'', PStr ''json''} else {PStr ''UDP_DATA''})
          \<or> (if match_received (strip line) = None \<and> match_transport (strip line) = None
              then \<exists>fields. loads (info r) = Inr (PDict fields)
                     \<and> map_of fields ''type'' = Some (msg_type r)
              else \<exists>envelope fields. loads (info r) = Inr (PDict envelope)
                     \<and> loads_value loads
                          (case map_of envelope ''message'' of Some m \<Rightarrow> m
                           | None \<Rightarrow> PStr ''{}'')
                        = Inr (PDict fields)
                     \<and> map_of fields ''type'' = Some (msg_type r)))"
  using assms
proof (cases rule: parse_line_cases)
  case (sending g1 g2 p t)
  have a: "loads p = Inl JSONDecodeError \<Longrightarrow> t = PStr ''text''"
    using sending(2) by (simp add: direct_type_decode_error)
  have b: "t \<in> {PStr ''text'', PStr ''json''}
      \<or> (\<exists>fields. loads p = Inr (PDict fields) \<and> map_of fields ''type'' = Some t)"
    using direct_type_Inr [OF sending(2)] by auto
  show ?thesis
    using a b sending(3) sending_not_udp_log [OF sending(1)]
      sending_not_received [OF sending(1)] sending_not_transport [OF sending(1)]
    by simp
next
  case (received g1 ip p t src)
  have a: "loads p = Inl JSONDecodeError \<Longrightarrow> t = PStr ''text''"
    using received(3) by (simp add: envelope_type_decode_error)
  have b: "t \<in> {PStr ''text'', PStr ''json''}
      \<or> (\<exists>envelope fields. loads p = Inr (PDict envelope)
            \<and> loads_value loads
                 (case map_of envelope ''message'' of Some m \<Rightarrow> m | None \<Rightarrow> PStr ''{}'')
               = Inr (PDict fields)
            \<and> map_of fields ''type'' = Some t)"
    using envelope_type_Inr [OF received(3)] by (auto dest!: envelope_body_type)
  show ?thesis
    using a b received(2,4) received_not_udp_log [OF received(2)] by simp
next
  case (transport g1 g2 p t src)
  have a: "loads p = Inl JSONDecodeError \<Longrightarrow> t = PStr ''text''"
    using transport(4) by (simp add: envelope_type_decode_error)
  have b: "t \<in> {PStr ''text'', PStr ''json''}
      \<or> (\<exists>envelope fields. loads p = Inr (PDict envelope)
            \<and> loads_value loads
                 (case map_of envelope ''message'' of Some m \<Rightarrow> m | None \<Rightarrow> PStr ''{}'')
               = Inr (PDict fields)
            \<and> map_of fields ''type'' = Some t)"
    using envelope_type_Inr [OF transport(4)] by (auto dest!: envelope_body_type)
  show ?thesis
    using a b transport(3,5) transport_not_udp_log [OF transport(3)] by simp
next
  case (udp_log d ts lp ra rp p t tm)
  have a: "loads p = Inl JSONDecodeError \<Longrightarrow> t = PStr ''UDP_DATA''"
    using udp_log(6) by (simp add: optional_type_decode_error)
  have b: "t = PStr ''UDP_DATA''
      \<or> (\<exists>fields. loads p = Inr (PDict fields) \<and> map_of fields ''type'' = Some t)"
    using optional_type_Inr [OF udp_log(6)] by auto
  show ?thesis
    using a b udp_log(2,3,4,7) by simp
qed

theorem type_sentinel_witness:
  "parse_line json_loads plain_outbound_line = Inr (Some untimed_record)
   \<and> json_loads (info untimed_record) = Inl JSONDecodeError
   \<and> match_udp_log (strip plain_outbound_line) = None
   \<and> msg_type untimed_record = PStr ''text''"
proof -
  have p: "parse_line json_loads plain_outbound_line = Inr (Some untimed_record)"
    unfolding plain_outbound_line_def untimed_record_def by code_simp
  have d: "json_loads (info untimed_record) = Inl JSONDecodeError"
    unfolding untimed_record_def by code_simp
  have u: "match_udp_log (strip plain_outbound_line) = None"
    unfolding plain_outbound_line_def by code_simp
  show ?thesis
    using p d u type_sentinel_or_payload_type [OF p]
    by (simp add: untimed_record_def)
qed

section \<open>The renderers on no records\<close>

text \<open>
  Claim C8, as the specification states it: every renderer, applied to the empty record
  sequence, returns without a failure and with valid empty-state output, which for a
  diagram generator is a structurally valid but empty document. The second half fails
  for \<^verbatim>\<open>generate_state_diagram_plantuml\<close>: it writes one document for each participant,
  there is none, and it returns the empty text, with neither \<^verbatim>\<open>@startuml\<close> nor
  \<^verbatim>\<open>@enduml\<close> in it.
\<close>

theorem state_diagram_on_empty_counterexample:
  "generate_state_diagram_plantuml [] = Inr []
   \<and> \<not> is_substring ''@startuml'' [] \<and> \<not> is_substring ''@enduml'' []
   \<and> map_sum id (is_substring ''@startuml'') (generate_sequence_diagram_plantuml []) = Inr True
   \<and> map_sum id (is_substring ''@startuml'') (generate_activity_diagram_plantuml []) = Inr True"
proof (intro conjI)
  show "generate_state_diagram_plantuml [] = Inr []"
    by (simp add: generate_state_diagram_plantuml_def participants_def join_lines_def)
  show "\<not> is_substring ''@startuml'' []" by simp
  show "\<not> is_substring ''@enduml'' []" by simp
  show "map_sum id (is_substring ''@startuml'') (generate_sequence_diagram_plantuml []) = Inr True"
    by (simp add: generate_sequence_diagram_plantuml_def participants_def join_lines_def)
  show "map_sum id (is_substring ''@startuml'') (generate_activity_diagram_plantuml []) = Inr True"
    by (simp add: generate_activity_diagram_plantuml_def join_lines_def)
qed

text \<open>
  Claim C8, amended: each renderer, applied to the empty record sequence, returns
  without an exception. The tabular trace prints its one-line notice; the PlantUML
  sequence and activity generators return a document framed by \<^verbatim>\<open>@startuml\<close> and
  \<^verbatim>\<open>@enduml\<close> with no participant, arrow or activity; the three ASCII renderers return
  their title and rules with no body; the PlantUML state generator returns the empty
  text.
\<close>

theorem renderers_on_empty:
  "print_wireshark_style [] = ([''No logs to display.''], None)
   \<and> generate_sequence_diagram_plantuml [] =
       Inr (join_lines [''@startuml'', ''skinparam monochrome true'', [], ''@enduml''])
   \<and> generate_activity_diagram_plantuml [] =
       Inr (join_lines [''@startuml'', ''skinparam monochrome true'', ''start'', ''stop'',
              ''@enduml''])
   \<and> generate_state_diagram_plantuml [] = Inr []
   \<and> generate_ascii_sequence_diagram [] =
       Inr (join_lines [''ASCII Sequence Diagram:'', ''-----------------------'', [], [],
              ''-----------------------''])
   \<and> generate_ascii_activity_flow [] =
       Inr (join_lines [''ASCII Activity Flow:'', ''---------------------'',
              ''---------------------''])
   \<and> generate_ascii_state_flow [] =
       Inr (join_lines [''ASCII State Flow (per participant):'',
              ''-----------------------------------'', ''-----------------------------------''])"
  by (simp add: print_wireshark_style_def generate_sequence_diagram_plantuml_def
      generate_activity_diagram_plantuml_def generate_state_diagram_plantuml_def
      generate_ascii_sequence_diagram_def generate_ascii_activity_flow_def
      generate_ascii_state_flow_def participants_def join_lines_def)

theorem renderers_on_empty_witness:
  "snd (print_wireshark_style []) = None \<and> generate_state_diagram_plantuml [] = Inr []"
  using renderers_on_empty by simp

section \<open>The tabular trace and records without a timestamp\<close>

lemma print_rows_missing_timestamp:
  "list_ex (\<lambda>log. timestamp log = None) logs \<Longrightarrow> isl (print_rows st logs i n out)"
proof (induction logs arbitrary: i n out)
  case Nil
  then show ?case by simp
next
  case (Cons log logs)
  show ?case
  proof (cases "table_row st log")
    case (Inl e)
    then show ?thesis by simp
  next
    case (Inr row)
    then have "timestamp log \<noteq> None"
      by (auto simp: table_row_def split: option.splits)
    with Cons.prems have "list_ex (\<lambda>log. timestamp log = None) logs" by simp
    then show ?thesis
      using Inr Cons.IH by simp
  qed
qed

text \<open>
  Claim C2 says that the tabular trace prints a row for every record, with the time 0
  for a record without a timestamp. The code reads \<^verbatim>\<open>log['timestamp']\<close> of every
  record: when the first record has no timestamp it prints the two header lines and
  ends in a KeyError, and it ends in an exception whenever any record has none.
\<close>

theorem tabular_trace_needs_timestamps:
  "(timestamp first = None \<longrightarrow>
      print_wireshark_style (first # others) =
        ([table_header, replicate 140 (CHR ''-'')], Some KeyError))
   \<and> (list_ex (\<lambda>log. timestamp log = None) parsed_logs \<longrightarrow>
        snd (print_wireshark_style parsed_logs) \<noteq> None)"
proof (intro conjI impI)
  assume "timestamp first = None"
  then show "print_wireshark_style (first # others) =
      ([table_header, replicate 140 (CHR ''-'')], Some KeyError)"
    by (simp add: print_wireshark_style_def)
next
  assume a: "list_ex (\<lambda>log. timestamp log = None) parsed_logs"
  show "snd (print_wireshark_style parsed_logs) \<noteq> None"
  proof (cases parsed_logs)
    case Nil
    with a show ?thesis by simp
  next
    case (Cons first others)
    show ?thesis
    proof (cases "timestamp first")
      case None
      then show ?thesis by (simp add: Cons print_wireshark_style_def)
    next
      case (Some st)
      from a have "isl (print_rows st parsed_logs 0 0 [table_header, replicate 140 (CHR ''-'')])"
        by (rule print_rows_missing_timestamp)
      then show ?thesis
        by (auto simp: Cons Some print_wireshark_style_def isl_def)
    qed
  qed
qed

theorem tabular_trace_needs_timestamps_witness:
  "parse_log_file json_loads [plain_outbound_line] = Inr [untimed_record]
   \<and> timestamp untimed_record = None
   \<and> print_wireshark_style [untimed_record] =
       ([table_header, replicate 140 (CHR ''-'')], Some KeyError)"
proof -
  have p: "parse_log_file json_loads [plain_outbound_line] = Inr [untimed_record]"
    unfolding plain_outbound_line_def untimed_record_def by code_simp
  have t: "timestamp untimed_record = None"
    by (simp add: untimed_record_def)
  from tabular_trace_needs_timestamps [of untimed_record "[]"] t
  have "print_wireshark_style [untimed_record] =
      ([table_header, replicate 140 (CHR ''-'')], Some KeyError)"
    by blast
  with p t show ?thesis by simp
qed

section \<open>The round-trip scenario\<close>

text \<open>
  Claim C1, as the specification states it: the four lines of the scenario yield four
  records with the types gossip, ack, auth and ping. They do not: the fourth line has
  the address and the port in two brackets, the fourth pattern wants them in one, and
  the line is skipped.
\<close>

theorem scenario_counterexample:
  "map_sum id (map msg_type) (parse_log_file json_loads scenario_lines)
     \<noteq> Inr [PStr ''gossip'', PStr ''ack'', PStr ''auth'', PStr ''ping'']"
proof -
  have "map_sum id (map msg_type) (parse_log_file json_loads scenario_lines)
      = Inr [PStr ''gossip'', PStr ''ack'', PStr ''auth'']"
    unfolding scenario_lines_def scenario_line1_def scenario_line2_def scenario_line3_def
      scenario_line4_def scenario_payload1_def scenario_payload2_def by code_simp
  then show ?thesis by simp
qed

text \<open>
  Claim C1, amended: the four lines of the scenario yield exactly three records, with
  the types gossip, ack and auth in that order, the fourth line matching no pattern; with
  the fourth line written as the fourth pattern has it, address and port in one bracket,
  they yield four records with the types gossip, ack, auth and ping.
\<close>

theorem scenario_records:
  "map_sum id (map msg_type) (parse_log_file json_loads scenario_lines)
     = Inr [PStr ''gossip'', PStr ''ack'', PStr ''auth'']
   \<and> parse_line json_loads scenario_line4 = Inr None
   \<and> map_sum id (map msg_type)
       (parse_log_file json_loads
          [scenario_line1, scenario_line2, scenario_line3, scenario_line4_joined])
     = Inr [PStr ''gossip'', PStr ''ack'', PStr ''auth'', PStr ''ping'']"
proof (intro conjI)
  show "map_sum id (map msg_type) (parse_log_file json_loads scenario_lines)
      = Inr [PStr ''gossip'', PStr ''ack'', PStr ''auth'']"
    unfolding scenario_lines_def scenario_line1_def scenario_line2_def scenario_line3_def
      scenario_line4_def scenario_payload1_def scenario_payload2_def by code_simp
  show "parse_line json_loads scenario_line4 = Inr None"
    unfolding scenario_line4_def by code_simp
  show "map_sum id (map msg_type)
       (parse_log_file json_loads
          [scenario_line1, scenario_line2, scenario_line3, scenario_line4_joined])
     = Inr [PStr ''gossip'', PStr ''ack'', PStr ''auth'', PStr ''ping'']"
    unfolding scenario_line1_def scenario_line2_def scenario_line3_def
      scenario_line4_joined_def scenario_payload1_def scenario_payload2_def by code_simp
qed

theorem scenario_records_witness:
  "parse_line json_loads scenario_line4 = Inr None
   \<and> \<not> isl (parse_log_file json_loads scenario_lines)"
  using scenario_records
  by (cases "parse_log_file json_loads scenario_lines") auto

section \<open>The order of the records\<close>


































section \<open>Peer names\<close>

lemma colon_split_unique:
  assumes "CHR '':'' \<notin> set a" and "CHR '':'' \<notin> set b"
    and "a @ CHR '':'' # x = b @ CHR '':'' # y"
  shows "a = b \<and> x = y"
proof -
  have "takeWhile (\<lambda>c. c \<noteq> CHR '':'') (a @ CHR '':'' # x) = a"
    using assms(1) by (auto simp: takeWhile_tail)
  moreover have "takeWhile (\<lambda>c. c \<noteq> CHR '':'') (b @ CHR '':'' # y) = b"
    using assms(2) by (auto simp: takeWhile_tail)
  ultimately have "a = b" using assms(3) by simp
  with assms(3) show ?thesis by simp
qed

lemma after_first_colon:
  "CHR '':'' \<notin> set a \<Longrightarrow> dropWhile (\<lambda>c. c \<noteq> CHR '':'') (a @ CHR '':'' # x) = CHR '':'' # x"
  by (auto simp: dropWhile_append3)

lemma list_all_takeWhile: "list_all P (takeWhile P xs)"
  by (induction xs) auto

lemma takeWhile_no_colon:
  assumes "\<And>c. P c \<Longrightarrow> c \<noteq> CHR '':''"
  shows "CHR '':'' \<notin> set (takeWhile P xs)"
  using list_all_takeWhile [of P xs] assms unfolding list_all_iff by blast

lemma hd_takeWhile:
  assumes "takeWhile P xs \<noteq> []"
  shows "P (hd (takeWhile P xs))"
  using list_all_takeWhile [of P xs] assms unfolding list_all_iff by (meson hd_in_set)

lemma case_option_eq_Some:
  "((case x of None \<Rightarrow> None | Some v \<Rightarrow> f v) = Some y) = (\<exists>v. x = Some v \<and> f v = Some y)"
  by (cases x) auto

lemma many1_parts:
  assumes "many1 P s = Some (g, r)"
  shows "g \<noteq> []" and "s = g @ r" and "g = takeWhile P s"
  using many1_Some [OF assms] by blast+

lemma digit_not_colon: "is_digit c \<Longrightarrow> c \<noteq> CHR '':''"
  by (auto simp: is_digit_def)

lemma ip_char_not_colon: "is_ip_char c \<Longrightarrow> c \<noteq> CHR '':''"
  by (auto simp: is_ip_char_def is_digit_def)

lemma node_name_sound:
  assumes "node_name s = Some (g, r)"
  shows "is_node_name g \<and> s = g @ r"
proof -
  from node_name_Some [OF assms] obtain ds where ds: "ds \<noteq> []" "g = ''node'' @ ds" "s = g @ r"
    "ds = takeWhile is_digit (drop 4 s)"
    by blast
  have "list_all is_digit ds"
    unfolding ds(4) by (rule list_all_takeWhile)
  with ds(1,2,3) show ?thesis by (simp add: is_node_name_def)
qed

lemma is_node_name_no_colon:
  assumes "is_node_name g"
  shows "CHR '':'' \<notin> set g"
proof -
  have "g = take 4 g @ drop 4 g" by simp
  then have "set g = set (take 4 g) \<union> set (drop 4 g)"
    by (metis set_append)
  moreover have "CHR '':'' \<notin> set (take 4 g)"
    using assms by (simp add: is_node_name_def)
  moreover have "CHR '':'' \<notin> set (drop 4 g)"
    using assms by (auto simp: is_node_name_def list_all_iff dest: digit_not_colon)
  ultimately show ?thesis by simp
qed

lemma match_sending_shape:
  assumes "match_sending s = Some (a, b, p)"
  shows "\<exists>tail. is_node_name a \<and> is_node_name b
           \<and> s = a @ '': Sending message to '' @ b @ '': '' @ tail"
proof -
  from assms obtain r1 r2 r3 r4 where
    "node_name s = Some (a, r1)" "lit '': Sending message to '' r1 = Some r2"
    "node_name r2 = Some (b, r3)" "lit '': '' r3 = Some r4"
    by (auto simp: match_sending_def case_option_eq_Some)
  then show ?thesis
    using node_name_sound [of s a r1] node_name_sound [of r2 b r3]
    by (simp add: lit_Some)
qed

lemma match_received_shape:
  assumes "match_received s = Some (a, ip, p)"
  shows "\<exists>tail. is_node_name a \<and> s = a @ '': Received message from '' @ tail"
proof -
  from assms obtain r1 r2 where
    "node_name s = Some (a, r1)" "lit '': Received message from '' r1 = Some r2"
    by (auto simp: match_received_def case_option_eq_Some)
  then show ?thesis
    using node_name_sound [of s a r1] by (simp add: lit_Some)
qed

lemma match_transport_shape:
  assumes "match_transport s = Some (ip, port, p)"
  shows "\<exists>tail. CHR '':'' \<notin> set ip \<and> port \<noteq> [] \<and> is_digit (hd port)
           \<and> s = ''UDPTransport: Sending message to '' @ ip @ '':'' @ port @ tail"
proof -
  from assms obtain r1 r2 r3 r4 where
    a: "lit ''UDPTransport: Sending message to '' s = Some r1"
    and b: "many1 is_ip_char r1 = Some (ip, r2)"
    and c: "lit '':'' r2 = Some r3"
    and d: "many1 is_digit r3 = Some (port, r4)"
    by (auto simp: match_transport_def case_option_eq_Some)
  have ip: "ip = takeWhile is_ip_char r1" "r1 = ip @ r2"
    using many1_parts [OF b] by blast+
  have port: "port \<noteq> []" "port = takeWhile is_digit r3" "r3 = port @ r4"
    using many1_parts [OF d] by blast+
  have "CHR '':'' \<notin> set ip"
    unfolding ip(1) by (rule takeWhile_no_colon) (rule ip_char_not_colon)
  moreover have "is_digit (hd port)"
    using port(1) unfolding port(2) by (rule hd_takeWhile)
  moreover have "s = ''UDPTransport: Sending message to '' @ ip @ '':'' @ port @ r4"
    using a c ip(2) port(3) by (simp add: lit_Some)
  ultimately show ?thesis
    using port(1) by blast
qed

lemma direction_tag_Some:
  "direction_tag s = Some (d, r) \<Longrightarrow> (d = ''IN'' \<or> d = ''OUT'') \<and> s = d @ r"
  by (auto simp: direction_tag_def lit_Some split: option.splits)

lemma time_char_not_space: "is_time_char c \<Longrightarrow> c \<noteq> CHR 0x20"
  by (auto simp: is_time_char_def is_digit_def)

lemma match_udp_log_after_colon:
  assumes "match_udp_log s = Some x"
  shows "\<exists>c cs. dropWhile (\<lambda>c. c \<noteq> CHR '':'') s = CHR '':'' # c # cs \<and> c \<noteq> CHR 0x20"
proof -
  from assms obtain r1 d r2 r3 g2 r4 r5 g3 r6 r7 g4 r8 r9 g5 r10 where
    p1: "lit ''[UDP_LOG] ['' s = Some r1"
    and p2: "direction_tag r1 = Some (d, r2)"
    and p3: "lit ''] ['' r2 = Some r3"
    and p4: "many1 is_time_char r3 = Some (g2, r4)"
    and p5: "lit ''] ['' r4 = Some r5"
    and p6: "many1 is_digit r5 = Some (g3, r6)"
    and p7: "lit ''] ['' r6 = Some r7"
    and p8: "many1 is_ip_char r7 = Some (g4, r8)"
    and p9: "lit '':'' r8 = Some r9"
    and p10: "many1 is_digit r9 = Some (g5, r10)"
    by (auto simp: match_udp_log_def case_option_eq_Some)
  have d: "d = ''IN'' \<or> d = ''OUT''" "r1 = d @ r2"
    using direction_tag_Some [OF p2] by blast+
  have g2: "g2 = takeWhile is_time_char r3" "r3 = g2 @ r4"
    using many1_parts [OF p4] by blast+
  have g3: "g3 = takeWhile is_digit r5" "r5 = g3 @ r6"
    using many1_parts [OF p6] by blast+
  have g4: "g4 = takeWhile is_ip_char r7" "r7 = g4 @ r8"
    using many1_parts [OF p8] by blast+
  have g5: "g5 \<noteq> []" "g5 = takeWhile is_digit r9" "r9 = g5 @ r10"
    using many1_parts [OF p10] by blast+
  define A where "A = ''[UDP_LOG] ['' @ d @ ''] [''"
  have A: "CHR '':'' \<notin> set A" using d(1) by (auto simp: A_def)
  have s1: "s = A @ g2 @ ''] ['' @ r5"
    using p1 d(2) p3 g2(2) p5 by (simp add: lit_Some A_def)
  have r5: "r5 = g3 @ ''] ['' @ g4 @ CHR '':'' # g5 @ r10"
    using g3(2) p7 g4(2) p9 g5(3) by (simp add: lit_Some)
  have g3c: "CHR '':'' \<notin> set g3"
    unfolding g3(1) by (rule takeWhile_no_colon) (rule digit_not_colon)
  have g4c: "CHR '':'' \<notin> set g4"
    unfolding g4(1) by (rule takeWhile_no_colon) (rule ip_char_not_colon)
  have g5d: "is_digit (hd g5)"
    using g5(1) unfolding g5(2) by (rule hd_takeWhile)
  show ?thesis
  proof (cases "CHR '':'' \<in> set g2")
    case True
    then obtain t1 t2 where t: "g2 = t1 @ CHR '':'' # t2" "CHR '':'' \<notin> set t1"
      by (meson split_list_first)
    have "s = (A @ t1) @ CHR '':'' # (t2 @ ''] ['' @ r5)"
      using s1 t(1) by simp
    moreover have "CHR '':'' \<notin> set (A @ t1)" using A t(2) by simp
    ultimately have dw: "dropWhile (\<lambda>c. c \<noteq> CHR '':'') s = CHR '':'' # (t2 @ ''] ['' @ r5)"
      using after_first_colon by metis
    show ?thesis
    proof (cases t2)
      case Nil
      with dw show ?thesis by simp
    next
      case (Cons c cs)
      then have "c \<in> set g2" using t(1) by simp
      then have "is_time_char c"
        using list_all_takeWhile [of is_time_char r3] unfolding g2(1) list_all_iff by blast
      with dw Cons show ?thesis by (auto dest: time_char_not_space)
    qed
  next
    case False
    have "s = (A @ g2 @ ''] ['' @ g3 @ ''] ['' @ g4) @ CHR '':'' # (g5 @ r10)"
      using s1 r5 by simp
    moreover have "CHR '':'' \<notin> set (A @ g2 @ ''] ['' @ g3 @ ''] ['' @ g4)"
      using A False g3c g4c by simp
    ultimately have dw: "dropWhile (\<lambda>c. c \<noteq> CHR '':'') s = CHR '':'' # (g5 @ r10)"
      using after_first_colon by metis
    from g5(1) obtain c cs where c: "g5 = c # cs" by (cases g5) auto
    with g5d have "c \<noteq> CHR 0x20" by (auto simp: is_digit_def)
    with dw c show ?thesis by simp
  qed
qed

lemma parse_line_no_match:
  "match_sending (strip line) = None \<Longrightarrow> match_received (strip line) = None \<Longrightarrow>
   match_transport (strip line) = None \<Longrightarrow> match_udp_log (strip line) = None \<Longrightarrow>
   parse_line loads line = Inr None"
  by (simp add: parse_line_def)

lemma colon_first_not_udp_log:
  assumes "CHR '':'' \<notin> set P" and "s = P @ CHR '':'' # CHR 0x20 # rest"
  shows "match_udp_log s = None"
proof (cases "match_udp_log s")
  case None
  then show ?thesis .
next
  case (Some x)
  from match_udp_log_after_colon [OF Some] obtain c cs
    where "dropWhile (\<lambda>c. c \<noteq> CHR '':'') s = CHR '':'' # c # cs" "c \<noteq> CHR 0x20"
    by blast
  moreover have "dropWhile (\<lambda>c. c \<noteq> CHR '':'') s = CHR '':'' # CHR 0x20 # rest"
    unfolding assms(2) using assms(1) by (rule after_first_colon)
  ultimately show ?thesis by simp
qed

lemma outbound_shape_no_match:
  assumes P: "CHR '':'' \<notin> set P" and Q: "CHR '':'' \<notin> set Q"
    and bad: "\<not> (is_node_name P \<and> is_node_name Q)"
    and s: "s = P @ '': Sending message to '' @ Q @ '': '' @ payload"
  shows "match_sending s = None \<and> match_received s = None
       \<and> match_transport s = None \<and> match_udp_log s = None"
proof (intro conjI)
  show "match_sending s = None"
  proof (cases "match_sending s")
    case None
    then show ?thesis .
  next
    case (Some x)
    obtain a b p where x: "x = (a, b, p)" by (cases x) auto
    from match_sending_shape [OF Some [unfolded x]] obtain tail
      where t: "is_node_name a" "is_node_name b"
        "s = a @ '': Sending message to '' @ b @ '': '' @ tail"
      by blast
    have "a @ CHR '':'' # ('' Sending message to '' @ b @ '': '' @ tail)
        = P @ CHR '':'' # ('' Sending message to '' @ Q @ '': '' @ payload)"
      using t(3) s by simp
    from colon_split_unique [OF is_node_name_no_colon [OF t(1)] P this]
    have aP: "a = P" and "b @ CHR '':'' # ('' '' @ tail) = Q @ CHR '':'' # ('' '' @ payload)"
      by auto
    from colon_split_unique [OF is_node_name_no_colon [OF t(2)] Q this(2)]
    have "b = Q" by simp
    with aP t(1,2) bad show ?thesis by simp
  qed
  show "match_received s = None"
  proof (cases "match_received s")
    case None
    then show ?thesis .
  next
    case (Some x)
    obtain a b p where x: "x = (a, b, p)" by (cases x) auto
    from match_received_shape [OF Some [unfolded x]] obtain tail
      where t: "is_node_name a" "s = a @ '': Received message from '' @ tail"
      by blast
    have "a @ CHR '':'' # ('' Received message from '' @ tail)
        = P @ CHR '':'' # ('' Sending message to '' @ Q @ '': '' @ payload)"
      using t(2) s by simp
    from colon_split_unique [OF is_node_name_no_colon [OF t(1)] P this]
    show ?thesis by simp
  qed
  show "match_transport s = None"
  proof (cases "match_transport s")
    case None
    then show ?thesis .
  next
    case (Some x)
    obtain ip port p where x: "x = (ip, port, p)" by (cases x) auto
    from match_transport_shape [OF Some [unfolded x]] obtain tail
      where t: "CHR '':'' \<notin> set ip" "port \<noteq> []" "is_digit (hd port)"
        "s = ''UDPTransport: Sending message to '' @ ip @ '':'' @ port @ tail"
      by blast
    have "''UDPTransport'' @ CHR '':'' # ('' Sending message to '' @ ip @ '':'' @ port @ tail)
        = P @ CHR '':'' # ('' Sending message to '' @ Q @ '': '' @ payload)"
      using t(4) s by simp
    from colon_split_unique [OF _ P this]
    have "ip @ CHR '':'' # (port @ tail) = Q @ CHR '':'' # ('' '' @ payload)"
      by simp
    from colon_split_unique [OF t(1) Q this]
    have "port @ tail = '' '' @ payload" by simp
    with t(2) have "hd port = CHR 0x20" by (cases port) auto
    with t(3) show ?thesis by (simp add: is_digit_def)
  qed
  show "match_udp_log s = None"
    using P by (rule colon_first_not_udp_log) (simp add: s)
qed

lemma inbound_shape_no_match:
  assumes P: "CHR '':'' \<notin> set P" and bad: "\<not> is_node_name P"
    and s: "s = P @ '': Received message from '' @ rest"
  shows "match_sending s = None \<and> match_received s = None
       \<and> match_transport s = None \<and> match_udp_log s = None"
proof (intro conjI)
  show "match_sending s = None"
  proof (cases "match_sending s")
    case None
    then show ?thesis .
  next
    case (Some x)
    obtain a b p where x: "x = (a, b, p)" by (cases x) auto
    from match_sending_shape [OF Some [unfolded x]] obtain tail
      where t: "is_node_name a" "s = a @ '': Sending message to '' @ b @ '': '' @ tail"
      by blast
    have "a @ CHR '':'' # ('' Sending message to '' @ b @ '': '' @ tail)
        = P @ CHR '':'' # ('' Received message from '' @ rest)"
      using t(2) s by simp
    from colon_split_unique [OF is_node_name_no_colon [OF t(1)] P this]
    show ?thesis by simp
  qed
  show "match_received s = None"
  proof (cases "match_received s")
    case None
    then show ?thesis .
  next
    case (Some x)
    obtain a b p where x: "x = (a, b, p)" by (cases x) auto
    from match_received_shape [OF Some [unfolded x]] obtain tail
      where t: "is_node_name a" "s = a @ '': Received message from '' @ tail"
      by blast
    have "a @ CHR '':'' # ('' Received message from '' @ tail)
        = P @ CHR '':'' # ('' Received message from '' @ rest)"
      using t(2) s by simp
    from colon_split_unique [OF is_node_name_no_colon [OF t(1)] P this]
    have "a = P" by simp
    with t(1) bad show ?thesis by simp
  qed
  show "match_transport s = None"
  proof (cases "match_transport s")
    case None
    then show ?thesis .
  next
    case (Some x)
    obtain ip port p where x: "x = (ip, port, p)" by (cases x) auto
    from match_transport_shape [OF Some [unfolded x]] obtain tail
      where t: "s = ''UDPTransport: Sending message to '' @ ip @ '':'' @ port @ tail"
      by blast
    have "''UDPTransport'' @ CHR '':'' # ('' Sending message to '' @ ip @ '':'' @ port @ tail)
        = P @ CHR '':'' # ('' Received message from '' @ rest)"
      using t s by simp
    from colon_split_unique [OF _ P this]
    show ?thesis by simp
  qed
  show "match_udp_log s = None"
    using P by (rule colon_first_not_udp_log) (simp add: s)
qed

text \<open>
  Claim C10. The outbound and the inbound peer pattern accept only names of the form
  \<^verbatim>\<open>node\<close> followed by one or more digits. A line that, as the parser sees it after
  \<^verbatim>\<open>strip()\<close>, has the shape \<^verbatim>\<open><peer>: Sending message to <peer>: <payload>\<close> or
  \<^verbatim>\<open><peer>: Received message from ...\<close> with peer names free of colons, one of them not
  of that form, yields no record and no exception: it is skipped.
\<close>

theorem peer_names_must_be_nodes:
  "(match_sending s = Some (a, b, p) \<longrightarrow> is_node_name a \<and> is_node_name b)
   \<and> (match_received s = Some (a, ip, p) \<longrightarrow> is_node_name a)
   \<and> (CHR '':'' \<notin> set P \<and> CHR '':'' \<notin> set Q \<and> \<not> (is_node_name P \<and> is_node_name Q)
        \<and> strip line = P @ '': Sending message to '' @ Q @ '': '' @ payload
      \<longrightarrow> parse_line loads line = Inr None)
   \<and> (CHR '':'' \<notin> set P \<and> \<not> is_node_name P
        \<and> strip line = P @ '': Received message from '' @ rest
      \<longrightarrow> parse_line loads line = Inr None)"
proof -
  have A: "match_sending s = Some (a, b, p) \<longrightarrow> is_node_name a \<and> is_node_name b"
    using match_sending_shape by blast
  have B: "match_received s = Some (a, ip, p) \<longrightarrow> is_node_name a"
    using match_received_shape by blast
  have C: "CHR '':'' \<notin> set P \<and> CHR '':'' \<notin> set Q \<and> \<not> (is_node_name P \<and> is_node_name Q)
        \<and> strip line = P @ '': Sending message to '' @ Q @ '': '' @ payload
      \<longrightarrow> parse_line loads line = Inr None"
  proof
    assume h: "CHR '':'' \<notin> set P \<and> CHR '':'' \<notin> set Q \<and> \<not> (is_node_name P \<and> is_node_name Q)
        \<and> strip line = P @ '': Sending message to '' @ Q @ '': '' @ payload"
    have "match_sending (strip line) = None \<and> match_received (strip line) = None
       \<and> match_transport (strip line) = None \<and> match_udp_log (strip line) = None"
      by (rule outbound_shape_no_match [of P Q "strip line" payload]) (use h in blast)+
    then show "parse_line loads line = Inr None"
      by (simp add: parse_line_no_match)
  qed
  have D: "CHR '':'' \<notin> set P \<and> \<not> is_node_name P
        \<and> strip line = P @ '': Received message from '' @ rest
      \<longrightarrow> parse_line loads line = Inr None"
  proof
    assume h: "CHR '':'' \<notin> set P \<and> \<not> is_node_name P
        \<and> strip line = P @ '': Received message from '' @ rest"
    have "match_sending (strip line) = None \<and> match_received (strip line) = None
       \<and> match_transport (strip line) = None \<and> match_udp_log (strip line) = None"
      by (rule inbound_shape_no_match [of P "strip line" rest]) (use h in blast)+
    then show "parse_line loads line = Inr None"
      by (simp add: parse_line_no_match)
  qed
  from A B C D show ?thesis by (intro conjI)
qed

theorem peer_names_must_be_nodes_witness:
  "strip alice_line = ''alice'' @ '': Sending message to '' @ ''bob'' @ '': '' @ ''hi''
   \<and> CHR '':'' \<notin> set ''alice'' \<and> CHR '':'' \<notin> set ''bob''
   \<and> \<not> is_node_name ''alice''
   \<and> parse_line json_loads alice_line = Inr None"
proof -
  have s: "strip alice_line = ''alice'' @ '': Sending message to '' @ ''bob'' @ '': '' @ ''hi''"
    unfolding alice_line_def by code_simp
  have n: "\<not> is_node_name ''alice''"
    by code_simp
  have c: "CHR '':'' \<notin> set ''alice''" "CHR '':'' \<notin> set ''bob''"
    by simp_all
  from peer_names_must_be_nodes
    [where P = "''alice''" and Q = "''bob''" and line = alice_line and payload = "''hi''"
       and loads = json_loads, THEN conjunct2, THEN conjunct2, THEN conjunct1]
    s n c
  have "parse_line json_loads alice_line = Inr None"
    by blast
  with s n c show ?thesis by simp
qed

end
